theory Spec2Isabelle
  imports Complex_Main
begin

section \<open>ProfileScope: data model\<close>

text \<open>
  Python \<open>str\<close> values are modelled as \<open>string\<close>; a \<open>char\<close> stands for a code point
  below 256. Python \<open>int\<close> is \<open>int\<close>. Python \<open>float\<close> is abstracted to \<open>real\<close>:
  rounding, infinities and NaN are outside the model. The functions of the Python library
  that the program calls and that have no counterpart in HOL (\<open>float(s)\<close>, the \<open>.Nf\<close>
  format, \<open>json.dump\<close>, \<open>json.load\<close>, \<open>time.strftime\<close>, \<open>pathlib\<close>) are the fields
  of a record \<open>pylib\<close>, which the functions that call them take as their first argument:
  what is proved holds for every such library.
\<close>

record FunctionStats =
  name :: string
  filename :: string
  line_number :: int
  total_calls :: int
  primitive_calls :: int
  total_time :: real
  cumulative_time :: real
  time_per_call :: real
  cumulative_per_call :: real
  percentage :: real

text \<open>
  A value read by \<open>json.load\<close> or written by \<open>json.dump\<close>. \<open>JFloat\<close> is a finite
  float; \<open>JInf\<close>, \<open>JNegInf\<close> and \<open>JNaN\<close> are the floats that \<open>json.load\<close> reads from
  \<open>Infinity\<close> (or from a literal too large for a float, such as \<open>1e999\<close>), \<open>-Infinity\<close> and
  \<open>NaN\<close>.
\<close>

datatype json =
    JNull
  | JBool bool
  | JInt int
  | JFloat real
  | JStr string
  | JArr "json list"
  | JObj "(string \<times> json) list"
  | JInf
  | JNegInf
  | JNaN

text \<open>
  \<open>ProfileReport\<close>. Its fields \<open>total_time\<close> and \<open>total_calls\<close> are written
  \<open>report_total_time\<close> and \<open>report_total_calls\<close>, since \<open>FunctionStats\<close> has fields of
  the same names. \<open>call_tree\<close> is a \<open>Dict[str, any]\<close>.
\<close>

record ProfileReport =
  script_path :: string
  report_total_time :: real
  report_total_calls :: int
  hot_functions :: "FunctionStats list"
  bottlenecks :: "string list"
  call_tree :: "(string \<times> json) list"
  recommendations :: "string list"
  timestamp :: string

text \<open>
  The part of the process state and of its environment that the program reads and
  writes: \<open>sys.argv\<close>, the files (path to content) and the clock read by \<open>time.time\<close>.
\<close>

record world =
  sys_argv :: "string list"
  fs :: "string \<rightharpoonup> string"
  clock :: real

text \<open>
  What opening, reading and parsing a file with \<open>json.load\<close> can raise: the decode error
  of the parser, \<open>UnicodeDecodeError\<close> for bytes that are not text, \<open>RecursionError\<close> for
  nesting that is too deep, and any other exception (an \<open>OSError\<close> of \<open>open\<close>, the
  \<open>ValueError\<close> of an integer literal with too many digits), named by its class.
\<close>

datatype load_error = JSONDecodeError | UnicodeDecodeError | RecursionError | OtherLoadError string

text \<open>
  \<open>json_load\<close> is \<open>None\<close> on a content for which \<open>json.load\<close> raises, and \<open>load_failure\<close>
  is then the exception.
\<close>

record pylib =
  float_of_str :: "string \<Rightarrow> real option"
  format_1f :: "real \<Rightarrow> string"
  format_3f :: "real \<Rightarrow> string"
  json_dump :: "json \<Rightarrow> string"
  json_load :: "string \<Rightarrow> json option"
  load_failure :: "string \<Rightarrow> load_error"
  strftime :: "string \<Rightarrow> real \<Rightarrow> string"
  path_stem :: "string \<Rightarrow> string"
  path_name :: "string \<Rightarrow> string"
  path_join :: "string \<Rightarrow> string \<Rightarrow> string"

section \<open>Text formatting of integers\<close>

text \<open>\<open>str(n)\<close> and \<open>format(n, ',')\<close> for an \<open>int\<close>.\<close>

definition digit_char :: "nat \<Rightarrow> char" where
  "digit_char d = ''0123456789'' ! (d mod 10)"

fun nat_str :: "nat \<Rightarrow> string" where
  "nat_str n = (if n < 10 then [digit_char n] else nat_str (n div 10) @ [digit_char (n mod 10)])"

declare nat_str.simps [simp del]

definition int_str :: "int \<Rightarrow> string" where
  "int_str i = (if i < 0 then ''-'' @ nat_str (nat (- i)) else nat_str (nat i))"

definition three_digits :: "nat \<Rightarrow> string" where
  "three_digits n = [digit_char (n div 100), digit_char (n div 10), digit_char n]"

fun nat_comma :: "nat \<Rightarrow> string" where
  "nat_comma n =
     (if n < 1000 then nat_str n
      else nat_comma (n div 1000) @ '','' @ three_digits (n mod 1000))"

declare nat_comma.simps [simp del]

definition int_comma :: "int \<Rightarrow> string" where
  "int_comma i = (if i < 0 then ''-'' @ nat_comma (nat (- i)) else nat_comma (nat i))"

section \<open>Analyzer: bottlenecks and recommendations\<close>

text \<open>
  \<open>_identify_bottlenecks\<close>: the loop over \<open>hot_functions[:10]\<close>, appending to the
  list of bottlenecks.
\<close>

fun bottleneck_loop :: "pylib \<Rightarrow> FunctionStats list \<Rightarrow> string list \<Rightarrow> string list" where
  "bottleneck_loop lib [] found = found"
| "bottleneck_loop lib (func # rest) found =
     bottleneck_loop lib rest
       (if percentage func > 10.0
        then found @ [name func @ '' ('' @ format_1f lib (percentage func) @ ''% of total time)'']
        else found)"

definition identify_bottlenecks :: "pylib \<Rightarrow> FunctionStats list \<Rightarrow> string list" where
  "identify_bottlenecks lib hot_funcs = bottleneck_loop lib (take 10 hot_funcs) []"

text \<open>
  \<open>_generate_recommendations\<close>: three loops appending to one list.
\<close>

fun high_calls_loop :: "FunctionStats list \<Rightarrow> string list \<Rightarrow> string list" where
  "high_calls_loop [] recs = recs"
| "high_calls_loop (func # rest) recs =
     high_calls_loop rest
       (if total_calls func > 10000
        then recs @
          [''Consider optimizing '' @ name func @ '': called '' @ int_comma (total_calls func) @ '' times'']
        else recs)"

fun slow_loop :: "pylib \<Rightarrow> real \<Rightarrow> FunctionStats list \<Rightarrow> string list \<Rightarrow> string list" where
  "slow_loop lib run_time [] recs = recs"
| "slow_loop lib run_time (func # rest) recs =
     slow_loop lib run_time rest
       (if cumulative_time func > run_time * 0.2
        then recs @
          [''Hot path detected in '' @ name func @ '': '' @ format_3f lib (cumulative_time func) @
             ''s ('' @ format_1f lib (percentage func) @ ''%)'']
        else recs)"

fun recursive_loop :: "FunctionStats list \<Rightarrow> string list \<Rightarrow> string list" where
  "recursive_loop [] recs = recs"
| "recursive_loop (func # rest) recs =
     recursive_loop rest
       (if primitive_calls func < total_calls func
        then recs @
          [''Recursive function '' @ name func @ '': '' @ int_str (total_calls func) @ '' calls ('' @
             int_str (primitive_calls func) @ '' primitive)'']
        else recs)"

definition generate_recommendations :: "pylib \<Rightarrow> FunctionStats list \<Rightarrow> real \<Rightarrow> string list" where
  "generate_recommendations lib hot_funcs run_time =
     (if hot_funcs = [] then [''No significant performance issues detected.'']
      else
        let recs = high_calls_loop (take 5 hot_funcs) [];
            recs = slow_loop lib run_time (take 5 hot_funcs) recs;
            recs = recursive_loop (take 10 hot_funcs) recs
        in if recs = []
           then [''Performance looks good! No major bottlenecks detected.'']
           else recs)"

section \<open>String operations of the stats parser\<close>

text \<open>
  \<open>str.isspace\<close> on code points below 256: TAB, LF, VT, FF, CR, the separators
  0x1C..0x1F, space, NEL (0x85) and the no-break space (0xA0).
\<close>

definition is_space :: "char \<Rightarrow> bool" where
  "is_space c = (c \<in> set [CHR 0x09, CHR 0x0A, CHR 0x0B, CHR 0x0C, CHR 0x0D, CHR 0x1C, CHR 0x1D,
     CHR 0x1E, CHR 0x1F, CHR 0x20, CHR 0x85, CHR 0xA0])"

text \<open>
  \<open>s.split(None, maxsplit)\<close>: runs of whitespace separate the fields, leading whitespace
  is dropped, and after \<open>maxsplit\<close> fields the rest of the string, without its leading
  whitespace but with its trailing whitespace, is the last field.
\<close>

fun split_ws :: "nat \<Rightarrow> string \<Rightarrow> string list" where
  "split_ws 0 s = (let r = dropWhile is_space s in if r = [] then [] else [r])"
| "split_ws (Suc maxsplit) s =
     (let r = dropWhile is_space s in
      if r = [] then []
      else takeWhile (\<lambda>c. \<not> is_space c) r # split_ws maxsplit (dropWhile (\<lambda>c. \<not> is_space c) r))"

text \<open>\<open>s.split(sep)\<close> for a one-character separator: never empty.\<close>

fun split_on :: "char \<Rightarrow> string \<Rightarrow> string list" where
  "split_on sep [] = [[]]"
| "split_on sep (c # cs) =
     (if c = sep then [] # split_on sep cs
      else (case split_on sep cs of
              [] \<Rightarrow> [[c]]
            | p # ps \<Rightarrow> (c # p) # ps))"

text \<open>\<open>s.rsplit(sep, 1)\<close>: split at the last separator, when there is one.\<close>

definition rsplit1 :: "char \<Rightarrow> string \<Rightarrow> string list" where
  "rsplit1 sep s =
     (if sep \<in> set s
      then [rev (tl (dropWhile (\<lambda>c. c \<noteq> sep) (rev s))), rev (takeWhile (\<lambda>c. c \<noteq> sep) (rev s))]
      else [s])"

text \<open>\<open>s.rstrip(ch)\<close> for a one-character argument.\<close>

definition rstrip_char :: "char \<Rightarrow> string \<Rightarrow> string" where
  "rstrip_char ch s = rev (dropWhile (\<lambda>c. c = ch) (rev s))"

text \<open>The substring test \<open>p in s\<close>.\<close>

fun starts_with :: "string \<Rightarrow> string \<Rightarrow> bool" where
  "starts_with [] s = True"
| "starts_with (p # ps) [] = False"
| "starts_with (p # ps) (c # cs) = (p = c \<and> starts_with ps cs)"

fun contains :: "string \<Rightarrow> string \<Rightarrow> bool" where
  "contains p [] = (p = [])"
| "contains p (c # cs) = (starts_with p (c # cs) \<or> contains p cs)"

text \<open>
  \<open>s.isdigit()\<close>: below 256 the digit characters are 0..9 and the superscripts
  two, three and one (0xB2, 0xB3, 0xB9), which \<open>int\<close> does not accept.
\<close>

definition is_ascii_digit :: "char \<Rightarrow> bool" where
  "is_ascii_digit c = (c \<in> set ''0123456789'')"

definition isdigit :: "string \<Rightarrow> bool" where
  "isdigit s =
     (s \<noteq> [] \<and> list_all (\<lambda>c. is_ascii_digit c \<or> c \<in> set [CHR 0xB2, CHR 0xB3, CHR 0xB9]) s)"

text \<open>
  \<open>int(s)\<close> in base 10: surrounding whitespace is stripped, one sign is allowed, and
  the digits may be separated by single underscores. \<open>None\<close> is \<open>ValueError\<close>.
  (The interpreter's limit on the number of digits is not modelled.)
\<close>

definition digit_val :: "char \<Rightarrow> nat" where
  "digit_val c = of_char c - 48"

fun int_digits :: "nat \<Rightarrow> string \<Rightarrow> nat option" where
  "int_digits acc [] = None"
| "int_digits acc [c] = (if is_ascii_digit c then Some (acc * 10 + digit_val c) else None)"
| "int_digits acc (c # d # ds) =
     (if is_ascii_digit c
      then (if d = CHR ''_'' then int_digits (acc * 10 + digit_val c) ds
            else int_digits (acc * 10 + digit_val c) (d # ds))
      else None)"

definition strip_ws :: "string \<Rightarrow> string" where
  "strip_ws s = rev (dropWhile is_space (rev (dropWhile is_space s)))"

definition py_int :: "string \<Rightarrow> int option" where
  "py_int s =
     (case strip_ws s of
        [] \<Rightarrow> None
      | c # cs \<Rightarrow>
          if c = CHR ''-'' then map_option (\<lambda>n. - int n) (int_digits 0 cs)
          else if c = CHR ''+'' then map_option int (int_digits 0 cs)
          else map_option int (int_digits 0 (c # cs)))"

section \<open>Stats parser\<close>

datatype parse_error = ValueError | IndexError

definition try_then :: "'e + 'a \<Rightarrow> ('a \<Rightarrow> 'e + 'b) \<Rightarrow> 'e + 'b" where
  "try_then m f = (case m of Inl e \<Rightarrow> Inl e | Inr v \<Rightarrow> f v)"

definition py_index :: "'a list \<Rightarrow> nat \<Rightarrow> parse_error + 'a" where
  "py_index xs i = (if i < length xs then Inr (xs ! i) else Inl IndexError)"

definition to_int :: "string \<Rightarrow> parse_error + int" where
  "to_int s = (case py_int s of None \<Rightarrow> Inl ValueError | Some i \<Rightarrow> Inr i)"

definition to_float :: "pylib \<Rightarrow> string \<Rightarrow> parse_error + real" where
  "to_float lib s = (case float_of_str lib s of None \<Rightarrow> Inl ValueError | Some x \<Rightarrow> Inr x)"

text \<open>
  The location token, \<open>filename:lineno(function)\<close>: the result is
  \<open>(filename, line_number, func_name)\<close>.
\<close>

definition parse_func_info :: "string \<Rightarrow> parse_error + (string \<times> int \<times> string)" where
  "parse_func_info func_info =
     (if CHR '':'' \<in> set func_info \<and> CHR ''('' \<in> set func_info then
        try_then (py_index (split_on CHR ''('' func_info) 0) (\<lambda>file_line.
        try_then (py_index (split_on CHR ''('' func_info) 1) (\<lambda>after_paren.
        let func_name = rstrip_char CHR '')'' after_paren in
        if CHR '':'' \<in> set file_line then
          (case rsplit1 CHR '':'' file_line of
             [file_name, line_no] \<Rightarrow>
               if isdigit line_no
               then try_then (to_int line_no) (\<lambda>line_num. Inr (file_name, line_num, func_name))
               else Inr (file_name, 0, func_name)
           | _ \<Rightarrow> Inl ValueError)
        else Inr (file_line, 0, func_name)))
      else Inr (''unknown'', 0, func_info))"

text \<open>The call-count field, \<open>X\<close> or \<open>X/Y\<close>: the result is \<open>(primitive_calls, total_calls)\<close>.\<close>

definition parse_ncalls :: "string \<Rightarrow> parse_error + (int \<times> int)" where
  "parse_ncalls ncalls_str =
     (if CHR ''/'' \<in> set ncalls_str then
        (case split_on CHR ''/'' ncalls_str of
           [prim_str, total_str] \<Rightarrow>
             try_then (to_int prim_str) (\<lambda>prim_calls.
             try_then (to_int total_str) (\<lambda>tot_calls. Inr (prim_calls, tot_calls)))
         | _ \<Rightarrow> Inl ValueError)
      else try_then (to_int ncalls_str) (\<lambda>prim_calls. Inr (prim_calls, prim_calls)))"

text \<open>The body of the \<open>try\<close> block, on the fields of one line.\<close>

definition parse_row :: "pylib \<Rightarrow> real \<Rightarrow> string list \<Rightarrow> parse_error + FunctionStats" where
  "parse_row lib run_time parts =
     try_then (py_index parts 0) (\<lambda>ncalls_str.
     try_then (py_index parts 1) (\<lambda>p1. try_then (to_float lib p1) (\<lambda>tottime.
     try_then (py_index parts 2) (\<lambda>p2.
     try_then (if p2 \<noteq> ''0.000'' then to_float lib p2 else Inr 0) (\<lambda>tottime_percall.
     try_then (py_index parts 3) (\<lambda>p3. try_then (to_float lib p3) (\<lambda>cumtime.
     try_then (py_index parts 4) (\<lambda>p4.
     try_then (if p4 \<noteq> ''0.000'' then to_float lib p4 else Inr 0) (\<lambda>cumtime_percall.
     try_then (py_index parts 5) (\<lambda>func_info.
     try_then (parse_func_info func_info) (\<lambda>(file_name, line_no, func_name).
     try_then (parse_ncalls ncalls_str) (\<lambda>(prim, total).
     let pct = (if run_time > 0 then cumtime / run_time * 100 else 0) in
     Inr \<lparr>name = func_name, filename = file_name, line_number = line_no,
          total_calls = total, primitive_calls = prim, total_time = tottime,
          cumulative_time = cumtime, time_per_call = tottime_percall,
          cumulative_per_call = cumtime_percall, percentage = pct\<rparr>))))))))))))"

text \<open>
  The loop over the lines of the dump: \<open>parsing_stats\<close> is the flag set by the header
  line, and a row that raises \<open>ValueError\<close> or \<open>IndexError\<close> is skipped.
\<close>

fun parse_lines :: "pylib \<Rightarrow> real \<Rightarrow> string list \<Rightarrow> bool \<Rightarrow>
    FunctionStats list \<Rightarrow> FunctionStats list" where
  "parse_lines lib run_time [] parsing_stats found = found"
| "parse_lines lib run_time (line # rest) parsing_stats found =
     (if contains ''ncalls'' line \<and> contains ''tottime'' line
      then parse_lines lib run_time rest True found
      else if \<not> parsing_stats
      then parse_lines lib run_time rest parsing_stats found
      else
        let parts = split_ws 5 line in
        if length parts < 6
        then parse_lines lib run_time rest parsing_stats found
        else (case parse_row lib run_time parts of
                Inr func_stats \<Rightarrow>
                  parse_lines lib run_time rest parsing_stats (found @ [func_stats])
              | Inl ValueError \<Rightarrow> parse_lines lib run_time rest parsing_stats found
              | Inl IndexError \<Rightarrow> parse_lines lib run_time rest parsing_stats found))"

text \<open>
  \<open>pstats.Stats\<close> is a library object: what the model keeps of it is the text that
  \<open>strip_dirs\<close>, \<open>sort_stats('cumulative')\<close> and \<open>print_stats(limit)\<close> write to the
  stream, and the three counters read by \<open>_extract_call_tree\<close>.
\<close>

record pstats =
  print_stats :: "nat \<Rightarrow> string"
  stats_total_calls :: int
  stats_prim_calls :: int
  stats_len :: nat

definition parse_output :: "pylib \<Rightarrow> real \<Rightarrow> string \<Rightarrow> FunctionStats list" where
  "parse_output lib run_time output =
     parse_lines lib run_time (split_on CHR 0x0A output) False []"

definition extract_hot_functions :: "pylib \<Rightarrow> pstats \<Rightarrow> real \<Rightarrow> nat \<Rightarrow> FunctionStats list" where
  "extract_hot_functions lib stats run_time limit =
     parse_output lib run_time (print_stats stats limit)"

definition extract_call_tree :: "pstats \<Rightarrow> (string \<times> json) list" where
  "extract_call_tree stats =
     [(''total_calls'', JInt (stats_total_calls stats)),
      (''primitive_calls'', JInt (stats_prim_calls stats)),
      (''total_functions'', JInt (int (stats_len stats)))]"

text \<open>
  The lines of a dump that the loop hands to the row parser: those after the first header
  line that are not header lines themselves. \<open>row_of\<close> is what the loop keeps of one
  such line.
\<close>

definition is_header :: "string \<Rightarrow> bool" where
  "is_header line = (contains ''ncalls'' line \<and> contains ''tottime'' line)"

fun data_lines :: "string list \<Rightarrow> bool \<Rightarrow> string list" where
  "data_lines [] seen = []"
| "data_lines (line # rest) seen =
     (if is_header line then data_lines rest True
      else if \<not> seen then data_lines rest seen
      else line # data_lines rest seen)"

definition row_of :: "pylib \<Rightarrow> real \<Rightarrow> string \<Rightarrow> FunctionStats option" where
  "row_of lib run_time line =
     (let parts = split_ws 5 line in
      if length parts < 6 then None
      else (case parse_row lib run_time parts of Inr r \<Rightarrow> Some r | Inl e \<Rightarrow> None))"


section \<open>Profiling a script\<close>

text \<open>
  What running the subject script under \<open>cProfile\<close> can do: return, with the statistics
  the profiler collected; raise an \<open>Exception\<close> (\<open>Raised\<close>, with \<open>str(e)\<close>: this covers
  \<open>open\<close>, \<open>compile\<close> and the script itself); or raise a \<open>BaseException\<close> that is not an
  \<open>Exception\<close>, such as \<open>SystemExit\<close> (\<open>RaisedBase\<close>). The run is a parameter of
  \<open>profile\<close>: it maps the world to an outcome and a new world, in which the script may
  have changed anything, \<open>sys.argv\<close> included; \<open>None\<close> is a script that never returns.
\<close>

datatype script_outcome = Returned pstats | Raised string | RaisedBase string

text \<open>
  The exceptions that leave \<open>profile\<close>: \<open>FileNotFoundError\<close> for a missing script
  (\<open>ScriptNotFound\<close>), \<open>RuntimeError\<close>, and a propagated \<open>BaseException\<close>.
\<close>

datatype profile_error = ScriptNotFound string | RuntimeError string | Propagated string

definition unlink :: "string \<Rightarrow> world \<Rightarrow> world" where
  "unlink path w = w\<lparr>fs := (fs w)(path := None)\<rparr>"

text \<open>
  \<open>profile\<close>. \<open>tmp_path\<close> is the name that \<open>tempfile.NamedTemporaryFile\<close> chooses, and
  \<open>dump\<close> the content that \<open>profiler.dump_stats\<close> writes there. The \<open>finally\<close> clause of
  the inner \<open>try\<close> is the update \<open>sys_argv := old_argv\<close>, that of the outer one is
  \<open>unlink tmp_path\<close>.
\<close>

definition profile :: "pylib \<Rightarrow> (string \<Rightarrow> world \<Rightarrow> (script_outcome \<times> world) option) \<Rightarrow> string \<Rightarrow>
    string \<Rightarrow> world \<Rightarrow> string \<Rightarrow> string list \<Rightarrow> ((profile_error + ProfileReport) \<times> world) option" where
  "profile lib run_script tmp_path dump w path script_args =
     (if fs w path = None
      then Some (Inl (ScriptNotFound (''Script not found: '' @ path)), w)
      else
        let w1 = w\<lparr>fs := (fs w)(tmp_path \<mapsto> [])\<rparr>;
            old_argv = sys_argv w1;
            w2 = w1\<lparr>sys_argv := path # script_args\<rparr>;
            start_time = clock w2
        in case run_script path w2 of
             None \<Rightarrow> None
           | Some (outcome, w3) \<Rightarrow>
               let w4 = w3\<lparr>sys_argv := old_argv\<rparr> in
               (case outcome of
                  Raised e \<Rightarrow>
                    Some (Inl (RuntimeError (''Script execution failed: '' @ e)), unlink tmp_path w4)
                | RaisedBase e \<Rightarrow> Some (Inl (Propagated e), unlink tmp_path w4)
                | Returned stats \<Rightarrow>
                    let end_time = clock w4;
                        run_time = end_time - start_time;
                        w5 = w4\<lparr>fs := (fs w4)(tmp_path \<mapsto> dump)\<rparr>;
                        hot_funcs = extract_hot_functions lib stats run_time 20;
                        found = identify_bottlenecks lib hot_funcs;
                        tree = extract_call_tree stats;
                        recs = generate_recommendations lib hot_funcs run_time;
                        report = \<lparr>script_path = path, report_total_time = run_time,
                          report_total_calls = stats_total_calls stats, hot_functions = hot_funcs,
                          bottlenecks = found, call_tree = tree, recommendations = recs,
                          timestamp = strftime lib ''%Y-%m-%d %H:%M:%S'' (clock w5)\<rparr>
                    in Some (Inr report, unlink tmp_path w5)))"

section \<open>Saving a report\<close>

text \<open>\<open>dataclasses.asdict\<close> on a \<open>FunctionStats\<close>, in the order of its fields.\<close>

definition asdict :: "FunctionStats \<Rightarrow> json" where
  "asdict f = JObj
     [(''name'', JStr (name f)),
      (''filename'', JStr (filename f)),
      (''line_number'', JInt (line_number f)),
      (''total_calls'', JInt (total_calls f)),
      (''primitive_calls'', JInt (primitive_calls f)),
      (''total_time'', JFloat (total_time f)),
      (''cumulative_time'', JFloat (cumulative_time f)),
      (''time_per_call'', JFloat (time_per_call f)),
      (''cumulative_per_call'', JFloat (cumulative_per_call f)),
      (''percentage'', JFloat (percentage f))]"

text \<open>The dictionary \<open>report_dict\<close> that the JSON branch of \<open>save_report\<close> builds.\<close>

definition report_dict :: "ProfileReport \<Rightarrow> json" where
  "report_dict report = JObj
     [(''script_path'', JStr (script_path report)),
      (''total_time'', JFloat (report_total_time report)),
      (''total_calls'', JInt (report_total_calls report)),
      (''hot_functions'', JArr (map asdict (hot_functions report))),
      (''bottlenecks'', JArr (map JStr (bottlenecks report))),
      (''call_tree'', JObj (call_tree report)),
      (''recommendations'', JArr (map JStr (recommendations report))),
      (''timestamp'', JStr (timestamp report))]"

text \<open>\<open>enumerate(xs, 1)\<close>.\<close>

definition enumerate1 :: "'a list \<Rightarrow> (nat \<times> 'a) list" where
  "enumerate1 xs = zip [1 ..< Suc (length xs)] xs"

text \<open>The text written by the Markdown branch.\<close>

definition markdown_text :: "pylib \<Rightarrow> ProfileReport \<Rightarrow> string" where
  "markdown_text lib report =
     ''# Performance Report: '' @ path_name lib (script_path report) @ [CHR 0x0A, CHR 0x0A] @
     ''**Total Time:** '' @ format_3f lib (report_total_time report) @ ''s'' @ [CHR 0x0A] @
     ''**Total Calls:** '' @ int_comma (report_total_calls report) @ [CHR 0x0A] @
     ''**Timestamp:** '' @ timestamp report @ [CHR 0x0A, CHR 0x0A] @
     ''## Hot Functions'' @ [CHR 0x0A, CHR 0x0A] @
     ''| Function | Time (s) | Calls | % |'' @ [CHR 0x0A] @
     ''|----------|----------|-------|---|'' @ [CHR 0x0A] @
     concat (map (\<lambda>func. ''| '' @ name func @ '' | '' @ format_3f lib (cumulative_time func) @
                    '' | '' @ int_comma (total_calls func) @ '' | '' @
                    format_1f lib (percentage func) @ ''% |'' @ [CHR 0x0A])
              (take 10 (hot_functions report))) @
     [CHR 0x0A] @
     (if bottlenecks report \<noteq> []
      then ''## Bottlenecks'' @ [CHR 0x0A, CHR 0x0A] @
           concat (map (\<lambda>b. ''- '' @ b @ [CHR 0x0A]) (bottlenecks report)) @ [CHR 0x0A]
      else []) @
     (if recommendations report \<noteq> []
      then ''## Recommendations'' @ [CHR 0x0A, CHR 0x0A] @
           concat (map (\<lambda>(i, r). nat_str i @ ''. '' @ r @ [CHR 0x0A])
                    (enumerate1 (recommendations report))) @ [CHR 0x0A]
      else [])"

text \<open>The text written by the HTML branch.\<close>

definition html_text :: "pylib \<Rightarrow> ProfileReport \<Rightarrow> string" where
  "html_text lib report =
     ''<html><head><title>ProfileScope Report</title>'' @
     ''<style>body{font-family:Arial;margin:20px;}table{border-collapse:collapse;width:100%;}'' @
     ''th,td{border:1px solid #ddd;padding:8px;text-align:left;}th{background:#4CAF50;color:white;}</style>'' @
     ''</head><body>'' @
     ''<h1>Performance Report: '' @ path_name lib (script_path report) @ ''</h1>'' @
     ''<p><strong>Total Time:</strong> '' @ format_3f lib (report_total_time report) @ ''s</p>'' @
     ''<p><strong>Total Calls:</strong> '' @ int_comma (report_total_calls report) @ ''</p>'' @
     ''<p><strong>Timestamp:</strong> '' @ timestamp report @ ''</p>'' @
     ''<h2>Hot Functions</h2>'' @
     ''<table><tr><th>Function</th><th>Time (s)</th><th>Calls</th><th>%</th></tr>'' @
     concat (map (\<lambda>func. ''<tr><td>'' @ name func @ ''</td><td>'' @
                    format_3f lib (cumulative_time func) @ ''</td><td>'' @
                    int_comma (total_calls func) @ ''</td><td>'' @
                    format_1f lib (percentage func) @ ''%</td></tr>'')
              (take 10 (hot_functions report))) @
     ''</table>'' @
     (if bottlenecks report \<noteq> []
      then ''<h2>Bottlenecks</h2><ul>'' @
           concat (map (\<lambda>b. ''<li>'' @ b @ ''</li>'') (bottlenecks report)) @ ''</ul>''
      else []) @
     (if recommendations report \<noteq> []
      then ''<h2>Recommendations</h2><ol>'' @
           concat (map (\<lambda>r. ''<li>'' @ r @ ''</li>'') (recommendations report)) @ ''</ol>''
      else []) @
     ''</body></html>''"

text \<open>
  \<open>save_report\<close>: \<open>output_dir\<close> is \<open>self.output_dir\<close>; the result is the path written, or
  the \<open>ValueError\<close> of an unsupported format.
\<close>

datatype save_error = UnsupportedFormat string

definition save_report :: "pylib \<Rightarrow> string \<Rightarrow> world \<Rightarrow> ProfileReport \<Rightarrow> string \<Rightarrow>
    (save_error + string) \<times> world" where
  "save_report lib output_dir w report fmt =
     (let stamp = strftime lib ''%Y%m%d_%H%M%S'' (clock w);
          script_name = path_stem lib (script_path report)
      in if fmt = ''json'' then
           let file_name = script_name @ ''_'' @ stamp @ ''.json'';
               filepath = path_join lib output_dir file_name
           in (Inr filepath, w\<lparr>fs := (fs w)(filepath \<mapsto> json_dump lib (report_dict report))\<rparr>)
         else if fmt = ''markdown'' then
           let file_name = script_name @ ''_'' @ stamp @ ''.md'';
               filepath = path_join lib output_dir file_name
           in (Inr filepath, w\<lparr>fs := (fs w)(filepath \<mapsto> markdown_text lib report)\<rparr>)
         else if fmt = ''html'' then
           let file_name = script_name @ ''_'' @ stamp @ ''.html'';
               filepath = path_join lib output_dir file_name
           in (Inr filepath, w\<lparr>fs := (fs w)(filepath \<mapsto> html_text lib report)\<rparr>)
         else (Inl (UnsupportedFormat (''Unsupported format: '' @ fmt)), w))"

section \<open>Comparing two reports\<close>

text \<open>
  The exceptions that leave \<open>compare_reports\<close>: \<open>FileNotFoundError\<close>, an exception of
  \<open>json.load\<close> (\<open>LoadError\<close>), and the exceptions of the operations on the loaded values.
\<close>

datatype compare_error =
    FileNotFoundError string
  | LoadError load_error
  | KeyError string
  | TypeError
  | AttributeError
  | OverflowError
  | ZeroDivisionError

text \<open>\<open>obj[key]\<close> with a string key: only a dictionary can be subscripted so.\<close>

definition py_getitem :: "json \<Rightarrow> string \<Rightarrow> compare_error + json" where
  "py_getitem obj key =
     (case obj of
        JObj kvs \<Rightarrow> (case map_of kvs key of None \<Rightarrow> Inl (KeyError key) | Some v \<Rightarrow> Inr v)
      | _ \<Rightarrow> Inl TypeError)"

text \<open>\<open>obj.get(key, default)\<close>.\<close>

definition py_get :: "json \<Rightarrow> string \<Rightarrow> json \<Rightarrow> compare_error + json" where
  "py_get obj key dflt =
     (case obj of
        JObj kvs \<Rightarrow> (case map_of kvs key of None \<Rightarrow> Inr dflt | Some v \<Rightarrow> Inr v)
      | _ \<Rightarrow> Inl AttributeError)"

subsection \<open>Python numbers\<close>

text \<open>
  A float is finite, an infinity or NaN. The value of a finite float is a real: rounding
  to 53 bits and the sign of zero are not modelled, the range is. A number is an \<open>int\<close>
  of any size (\<open>bool\<close> included) or a float.
\<close>

datatype pyfloat = Fin real | PosInf | NegInf | NaN

datatype pynum = PInt int | PFloat pyfloat

text \<open>
  A real of this magnitude or more rounds to an infinity: the bound is halfway between the
  largest float and \<open>2 ^ 1024\<close>. The result of a float operation beyond it is an
  infinity; the conversion of an \<open>int\<close> beyond it to a float, and a quotient of two \<open>int\<close>s
  beyond it, raise \<open>OverflowError\<close>.
\<close>

definition float_limit :: real where
  "float_limit = 2 ^ 1024 - 2 ^ 970"

definition round_float :: "real \<Rightarrow> pyfloat" where
  "round_float x =
     (if float_limit \<le> x then PosInf else if x \<le> - float_limit then NegInf else Fin x)"

fun float_sub :: "pyfloat \<Rightarrow> pyfloat \<Rightarrow> pyfloat" where
  "float_sub (Fin x) (Fin y) = round_float (x - y)"
| "float_sub (Fin x) PosInf = NegInf"
| "float_sub (Fin x) NegInf = PosInf"
| "float_sub PosInf (Fin y) = PosInf"
| "float_sub PosInf NegInf = PosInf"
| "float_sub PosInf PosInf = NaN"
| "float_sub NegInf (Fin y) = NegInf"
| "float_sub NegInf PosInf = NegInf"
| "float_sub NegInf NegInf = NaN"
| "float_sub NaN b = NaN"
| "float_sub a NaN = NaN"

fun float_mul :: "pyfloat \<Rightarrow> pyfloat \<Rightarrow> pyfloat" where
  "float_mul (Fin x) (Fin y) = round_float (x * y)"
| "float_mul (Fin x) PosInf = (if 0 < x then PosInf else if x < 0 then NegInf else NaN)"
| "float_mul (Fin x) NegInf = (if 0 < x then NegInf else if x < 0 then PosInf else NaN)"
| "float_mul PosInf (Fin y) = (if 0 < y then PosInf else if y < 0 then NegInf else NaN)"
| "float_mul NegInf (Fin y) = (if 0 < y then NegInf else if y < 0 then PosInf else NaN)"
| "float_mul PosInf PosInf = PosInf"
| "float_mul PosInf NegInf = NegInf"
| "float_mul NegInf PosInf = NegInf"
| "float_mul NegInf NegInf = PosInf"
| "float_mul NaN b = NaN"
| "float_mul a NaN = NaN"

text \<open>Division by a float that is not zero.\<close>

fun float_div :: "pyfloat \<Rightarrow> pyfloat \<Rightarrow> pyfloat" where
  "float_div (Fin x) (Fin y) = round_float (x / y)"
| "float_div (Fin x) PosInf = Fin 0"
| "float_div (Fin x) NegInf = Fin 0"
| "float_div PosInf (Fin y) = (if 0 < y then PosInf else NegInf)"
| "float_div NegInf (Fin y) = (if 0 < y then NegInf else PosInf)"
| "float_div PosInf PosInf = NaN"
| "float_div PosInf NegInf = NaN"
| "float_div NegInf PosInf = NaN"
| "float_div NegInf NegInf = NaN"
| "float_div NaN b = NaN"
| "float_div a NaN = NaN"

fun float_gt :: "pyfloat \<Rightarrow> pyfloat \<Rightarrow> bool" where
  "float_gt (Fin x) (Fin y) = (y < x)"
| "float_gt (Fin x) NegInf = True"
| "float_gt PosInf (Fin y) = True"
| "float_gt PosInf NegInf = True"
| "float_gt a b = False"

text \<open>
  \<open>a > b\<close> on numbers: an \<open>int\<close> and a float are compared by their exact values, so the
  comparison raises nothing.
\<close>

fun py_gt :: "pynum \<Rightarrow> pynum \<Rightarrow> bool" where
  "py_gt (PInt i) (PInt j) = (j < i)"
| "py_gt (PInt i) (PFloat g) = float_gt (Fin (real_of_int i)) g"
| "py_gt (PFloat f) (PInt j) = float_gt f (Fin (real_of_int j))"
| "py_gt (PFloat f) (PFloat g) = float_gt f g"

text \<open>The conversion of an operand to a float, when the other operand is a float.\<close>

fun as_float :: "pynum \<Rightarrow> compare_error + pyfloat" where
  "as_float (PInt i) =
     (if float_limit \<le> \<bar>real_of_int i\<bar> then Inl OverflowError else Inr (Fin (real_of_int i)))"
| "as_float (PFloat f) = Inr f"

text \<open>
  \<open>a - b\<close>, \<open>a / b\<close> and \<open>a * b\<close>: two \<open>int\<close>s are subtracted and multiplied exactly and
  divided to a float; otherwise both operands are converted to floats first.
\<close>

fun py_sub :: "pynum \<Rightarrow> pynum \<Rightarrow> compare_error + pynum" where
  "py_sub (PInt i) (PInt j) = Inr (PInt (i - j))"
| "py_sub a b =
     try_then (as_float a) (\<lambda>x. try_then (as_float b) (\<lambda>y. Inr (PFloat (float_sub x y))))"

fun py_truediv :: "pynum \<Rightarrow> pynum \<Rightarrow> compare_error + pynum" where
  "py_truediv (PInt i) (PInt j) =
     (if j = 0 then Inl ZeroDivisionError
      else if float_limit \<le> \<bar>real_of_int i / real_of_int j\<bar> then Inl OverflowError
      else Inr (PFloat (Fin (real_of_int i / real_of_int j))))"
| "py_truediv a b =
     try_then (as_float a) (\<lambda>x. try_then (as_float b) (\<lambda>y.
       if y = Fin 0 then Inl ZeroDivisionError else Inr (PFloat (float_div x y))))"

fun py_mul :: "pynum \<Rightarrow> pynum \<Rightarrow> compare_error + pynum" where
  "py_mul (PInt i) (PInt j) = Inr (PInt (i * j))"
| "py_mul a b =
     try_then (as_float a) (\<lambda>x. try_then (as_float b) (\<lambda>y. Inr (PFloat (float_mul x y))))"

text \<open>
  The number that a loaded value is as an operand of \<open>-\<close>, \<open>/\<close> and \<open>>\<close>; every other
  operand raises \<open>TypeError\<close> (\<open>None\<close>).
\<close>

definition num_val :: "json \<Rightarrow> pynum option" where
  "num_val v =
     (case v of
        JInt i \<Rightarrow> Some (PInt i)
      | JBool b \<Rightarrow> Some (PInt (if b then 1 else 0))
      | JFloat x \<Rightarrow> Some (PFloat (Fin x))
      | JInf \<Rightarrow> Some (PFloat PosInf)
      | JNegInf \<Rightarrow> Some (PFloat NegInf)
      | JNaN \<Rightarrow> Some (PFloat NaN)
      | _ \<Rightarrow> None)"

subsection \<open>The comparison\<close>

text \<open>
  The conditional expression \<open>((current - baseline) / baseline) * 100 if baseline > 0 else 0.0\<close>,
  which the source evaluates for the times and for the call counts: the test first, and
  \<open>current\<close> only when the test holds.
\<close>

definition change_percent :: "json \<Rightarrow> json \<Rightarrow> compare_error + pynum" where
  "change_percent baseline_v current_v =
     (case num_val baseline_v of
        None \<Rightarrow> Inl TypeError
      | Some b \<Rightarrow>
          if py_gt b (PInt 0)
          then (case num_val current_v of
                  None \<Rightarrow> Inl TypeError
                | Some c \<Rightarrow>
                    try_then (py_sub c b) (\<lambda>d.
                    try_then (py_truediv d b) (\<lambda>q. py_mul q (PInt 100))))
          else Inr (PFloat (Fin 0)))"

text \<open>
  \<open>set(v)\<close>: a list of hashable values, a string (its characters) or a dictionary (its
  keys). Elements are kept up to Python's \<open>==\<close>, under which \<open>True\<close>, \<open>1\<close> and \<open>1.0\<close> are
  one element: \<open>set_key\<close> maps a value to its representative. (Every \<open>NaN\<close> that
  \<open>json.load\<close> reads is one object of the decoder, and a set finds an object that it holds.)
\<close>

definition hashable :: "json \<Rightarrow> bool" where
  "hashable v = (case v of JArr _ \<Rightarrow> False | JObj _ \<Rightarrow> False | _ \<Rightarrow> True)"

definition set_key :: "json \<Rightarrow> json" where
  "set_key v =
     (case v of
        JBool b \<Rightarrow> JInt (if b then 1 else 0)
      | JFloat x \<Rightarrow> (if x = real_of_int \<lfloor>x\<rfloor> then JInt \<lfloor>x\<rfloor> else JFloat x)
      | _ \<Rightarrow> v)"

definition py_set :: "json \<Rightarrow> compare_error + json set" where
  "py_set v =
     (case v of
        JArr xs \<Rightarrow> if list_all hashable xs then Inr (set (map set_key xs)) else Inl TypeError
      | JStr s \<Rightarrow> Inr (set (map (\<lambda>c. JStr [c]) s))
      | JObj kvs \<Rightarrow> Inr (set (map (\<lambda>kv. JStr (fst kv)) kvs))
      | _ \<Rightarrow> Inl TypeError)"

text \<open>
  The comparison dictionary. \<open>new_bottlenecks\<close> and \<open>fixed_bottlenecks\<close> are lists made
  from sets, in no specified order: the model keeps the sets.
\<close>

record comparison =
  baseline_time :: json
  current_time :: json
  time_change_percent :: pynum
  baseline_calls :: json
  current_calls :: json
  calls_change_percent :: pynum
  new_bottlenecks :: "json set"
  fixed_bottlenecks :: "json set"
  regression_detected :: bool

text \<open>The part of \<open>compare_reports\<close> after the two files are loaded.\<close>

definition compare_loaded :: "json \<Rightarrow> json \<Rightarrow> compare_error + comparison" where
  "compare_loaded baseline current =
     try_then (py_getitem baseline ''total_time'') (\<lambda>b_time.
     try_then (py_getitem current ''total_time'') (\<lambda>c_time.
     try_then (change_percent b_time c_time) (\<lambda>time_change.
     try_then (py_getitem baseline ''total_calls'') (\<lambda>b_calls.
     try_then (py_getitem current ''total_calls'') (\<lambda>c_calls.
     try_then (change_percent b_calls c_calls) (\<lambda>calls_change.
     try_then (py_get baseline ''bottlenecks'' (JArr [])) (\<lambda>b_list.
     try_then (py_set b_list) (\<lambda>baseline_bottlenecks.
     try_then (py_get current ''bottlenecks'' (JArr [])) (\<lambda>c_list.
     try_then (py_set c_list) (\<lambda>current_bottlenecks.
     Inr \<lparr>baseline_time = b_time, current_time = c_time, time_change_percent = time_change,
          baseline_calls = b_calls, current_calls = c_calls, calls_change_percent = calls_change,
          new_bottlenecks = current_bottlenecks - baseline_bottlenecks,
          fixed_bottlenecks = baseline_bottlenecks - current_bottlenecks,
          regression_detected =
            (py_gt time_change (PFloat (Fin 10)) \<or> py_gt calls_change (PFloat (Fin 20)))\<rparr>))))))))))"

text \<open>
  \<open>compare_reports\<close>: a path exists when the file system has a content for it, and the
  baseline is opened and loaded before the current report is opened. A path that exists
  and cannot be opened or read is a content on which \<open>json_load\<close> is \<open>None\<close>, with the
  \<open>OSError\<close> as its \<open>load_failure\<close>.
\<close>

definition compare_reports :: "pylib \<Rightarrow> world \<Rightarrow> string \<Rightarrow> string \<Rightarrow> compare_error + comparison" where
  "compare_reports lib w baseline_path current_path =
     (case fs w baseline_path of
        None \<Rightarrow> Inl (FileNotFoundError (''Baseline report not found: '' @ baseline_path))
      | Some baseline_text \<Rightarrow>
     (case fs w current_path of
        None \<Rightarrow> Inl (FileNotFoundError (''Current report not found: '' @ current_path))
      | Some current_text \<Rightarrow>
     (case json_load lib baseline_text of
        None \<Rightarrow> Inl (LoadError (load_failure lib baseline_text))
      | Some baseline \<Rightarrow>
     (case json_load lib current_text of
        None \<Rightarrow> Inl (LoadError (load_failure lib current_text))
      | Some current \<Rightarrow> compare_loaded baseline current))))"

section \<open>An instance of the library\<close>

text \<open>
  For evaluating the model on concrete inputs: \<open>float(s)\<close> on the fixed-point literals
  \<open>digits.digits\<close> that \<open>pstats\<close> prints, with their exact value (other strings are
  rejected by this instance); the \<open>.Nf\<close> format on exact reals, rounding half to even;
  path operations on \<open>/\<close>-separated paths. \<open>json_dump\<close> and \<open>json_load\<close> are set where
  they are used.
\<close>

definition digits_nat :: "string \<Rightarrow> nat" where
  "digits_nat s = foldl (\<lambda>acc c. acc * 10 + digit_val c) 0 s"

definition decimal_float :: "string \<Rightarrow> real option" where
  "decimal_float s =
     (case split_on CHR ''.'' s of
        [ip, fp] \<Rightarrow>
          if ip \<noteq> [] \<and> fp \<noteq> [] \<and> list_all is_ascii_digit ip \<and> list_all is_ascii_digit fp
          then Some (real (digits_nat ip) + real (digits_nat fp) / 10 ^ length fp)
          else None
      | _ \<Rightarrow> None)"

definition round_half_even :: "real \<Rightarrow> int" where
  "round_half_even x =
     (let fl = \<lfloor>x\<rfloor>; frac = x - real_of_int fl
      in if frac < 1 / 2 then fl
         else if frac > 1 / 2 then fl + 1
         else if even fl then fl else fl + 1)"

definition fixed_str :: "nat \<Rightarrow> real \<Rightarrow> string" where
  "fixed_str n x =
     (let k = nat (round_half_even (\<bar>x\<bar> * 10 ^ n));
          frac = nat_str (k mod 10 ^ n)
      in (if x < 0 then ''-'' else []) @ nat_str (k div 10 ^ n) @
         (if n = 0 then [] else ''.'' @ replicate (n - length frac) CHR ''0'' @ frac))"

definition base_name :: "string \<Rightarrow> string" where
  "base_name p = last (split_on CHR ''/'' p)"

definition example_lib :: pylib where
  "example_lib =
     \<lparr>float_of_str = decimal_float,
      format_1f = fixed_str 1,
      format_3f = fixed_str 3,
      json_dump = (\<lambda>j. []),
      json_load = (\<lambda>s. None),
      load_failure = (\<lambda>s. JSONDecodeError),
      strftime = (\<lambda>fmt t. fmt),
      path_stem = (\<lambda>p. takeWhile (\<lambda>c. c \<noteq> CHR ''.'') (base_name p)),
      path_name = base_name,
      path_join = (\<lambda>d f. d @ ''/'' @ f)\<rparr>"

section \<open>The persisted report schema of the specification\<close>

text \<open>
  The schema that the specification gives for a persisted report, written down from its
  words to be compared with what \<open>compare_reports\<close> accepts: an object with the eight
  keys, where \<open>total_time\<close> is a number, \<open>total_calls\<close> an integer, \<open>hot_functions\<close> a list
  of objects with the ten keys of a function record, \<open>bottlenecks\<close> and
  \<open>recommendations\<close> lists of strings, and \<open>call_tree\<close> an object with three integers.
\<close>

definition is_number :: "json \<Rightarrow> bool" where
  "is_number v =
     (case v of
        JInt _ \<Rightarrow> True | JFloat _ \<Rightarrow> True | JInf \<Rightarrow> True | JNegInf \<Rightarrow> True | JNaN \<Rightarrow> True
      | _ \<Rightarrow> False)"

definition is_integer :: "json \<Rightarrow> bool" where
  "is_integer v = (case v of JInt _ \<Rightarrow> True | _ \<Rightarrow> False)"

definition is_string :: "json \<Rightarrow> bool" where
  "is_string v = (case v of JStr _ \<Rightarrow> True | _ \<Rightarrow> False)"

definition is_string_list :: "json \<Rightarrow> bool" where
  "is_string_list v = (case v of JArr xs \<Rightarrow> list_all is_string xs | _ \<Rightarrow> False)"

definition has_key :: "(json \<Rightarrow> bool) \<Rightarrow> (string \<times> json) list \<Rightarrow> string \<Rightarrow> bool" where
  "has_key ok kvs key = (case map_of kvs key of None \<Rightarrow> False | Some v \<Rightarrow> ok v)"

definition spec_function_schema :: "json \<Rightarrow> bool" where
  "spec_function_schema v =
     (case v of
        JObj kvs \<Rightarrow>
          has_key is_string kvs ''name'' \<and> has_key is_string kvs ''filename'' \<and>
          has_key is_integer kvs ''line_number'' \<and> has_key is_integer kvs ''total_calls'' \<and>
          has_key is_integer kvs ''primitive_calls'' \<and> has_key is_number kvs ''total_time'' \<and>
          has_key is_number kvs ''cumulative_time'' \<and> has_key is_number kvs ''time_per_call'' \<and>
          has_key is_number kvs ''cumulative_per_call'' \<and> has_key is_number kvs ''percentage''
      | _ \<Rightarrow> False)"

definition spec_call_tree_schema :: "json \<Rightarrow> bool" where
  "spec_call_tree_schema v =
     (case v of
        JObj kvs \<Rightarrow>
          has_key is_integer kvs ''total_calls'' \<and> has_key is_integer kvs ''primitive_calls'' \<and>
          has_key is_integer kvs ''total_functions''
      | _ \<Rightarrow> False)"

definition spec_report_schema :: "json \<Rightarrow> bool" where
  "spec_report_schema v =
     (case v of
        JObj kvs \<Rightarrow>
          has_key is_string kvs ''script_path'' \<and> has_key is_number kvs ''total_time'' \<and>
          has_key is_integer kvs ''total_calls'' \<and>
          has_key (\<lambda>h. case h of JArr items \<Rightarrow> list_all spec_function_schema items | _ \<Rightarrow> False) kvs
            ''hot_functions'' \<and>
          has_key is_string_list kvs ''bottlenecks'' \<and>
          has_key spec_call_tree_schema kvs ''call_tree'' \<and>
          has_key is_string_list kvs ''recommendations'' \<and> has_key is_string kvs ''timestamp''
      | _ \<Rightarrow> False)"

text \<open>The value of a number of a report that is an integer or a finite float.\<close>

definition finite_val :: "json \<Rightarrow> real option" where
  "finite_val v = (case v of JInt i \<Rightarrow> Some (real_of_int i) | JFloat x \<Rightarrow> Some x | _ \<Rightarrow> None)"

section \<open>Concrete inputs\<close>

text \<open>A dump of two rows, the statistics object that prints it, and a run that returns it.\<close>

definition example_dump :: string where
  "example_dump =
     ''   ncalls  tottime  percall  cumtime  percall filename:lineno(function)'' @ [CHR 0x0A] @
     ''      3/1    0.000    0.000    0.250    0.250 fib.py:1(fib)'' @ [CHR 0x0A] @
     ''        1    0.100    0.100    0.100    0.100 fib.py:9(main)'' @ [CHR 0x0A]"

definition example_stats :: pstats where
  "example_stats =
     \<lparr>print_stats = (\<lambda>limit. example_dump), stats_total_calls = 4, stats_prim_calls = 2,
      stats_len = 2\<rparr>"

definition example_world :: world where
  "example_world =
     \<lparr>sys_argv = [''profilescope'', ''run'', ''fib.py''], fs = [''fib.py'' \<mapsto> ''print(1)''],
      clock = 0\<rparr>"

definition example_run :: "string \<Rightarrow> world \<Rightarrow> (script_outcome \<times> world) option" where
  "example_run path w = Some (Returned example_stats, w\<lparr>sys_argv := [], clock := clock w + 1\<rparr>)"

text \<open>
  Two files whose contents \<open>json.load\<close> reads as given values, for evaluating
  \<open>compare_reports\<close>: the library instance with the loader given by a table.
\<close>

definition load_table :: "(string \<times> json) list \<Rightarrow> pylib" where
  "load_table table = example_lib\<lparr>json_load := map_of table\<rparr>"

definition two_files :: world where
  "two_files =
     \<lparr>sys_argv = [''profilescope'', ''compare'', ''baseline.json'', ''current.json''],
      fs = [''baseline.json'' \<mapsto> ''B'', ''current.json'' \<mapsto> ''C''], clock = 0\<rparr>"

definition totals_only :: "json \<Rightarrow> json \<Rightarrow> json" where
  "totals_only t c = JObj [(''total_time'', t), (''total_calls'', c)]"

definition example_function :: FunctionStats where
  "example_function =
     \<lparr>name = ''fib'', filename = ''fib.py'', line_number = 1, total_calls = 1, primitive_calls = 3,
      total_time = 0, cumulative_time = 1 / 4, time_per_call = 0, cumulative_per_call = 1 / 4,
      percentage = 25\<rparr>"

definition example_report :: ProfileReport where
  "example_report =
     \<lparr>script_path = ''fib.py'', report_total_time = 1, report_total_calls = 4,
      hot_functions = replicate 11 example_function,
      bottlenecks = [''fib (25.0% of total time)''],
      call_tree = extract_call_tree example_stats,
      recommendations = [''Hot path detected in fib: 0.250s (25.0%)''],
      timestamp = ''2026-02-16 12:00:00''\<rparr>"

text \<open>The dictionary of the example report, with given \<open>total_time\<close> and \<open>total_calls\<close>.\<close>

definition report_with :: "json \<Rightarrow> json \<Rightarrow> json" where
  "report_with t c = JObj
     [(''script_path'', JStr ''fib.py''),
      (''total_time'', t),
      (''total_calls'', c),
      (''hot_functions'', JArr [asdict example_function]),
      (''bottlenecks'', JArr [JStr ''fib (25.0% of total time)'']),
      (''call_tree'', JObj (extract_call_tree example_stats)),
      (''recommendations'', JArr [JStr ''Hot path detected in fib: 0.250s (25.0%)'']),
      (''timestamp'', JStr ''2026-02-16 12:00:00'')]"

section \<open>Properties of the analyzer\<close>

lemma bottleneck_loop_eq:
  "bottleneck_loop lib xs acc =
     acc @ map (\<lambda>f. name f @ '' ('' @ format_1f lib (percentage f) @ ''% of total time)'')
             (filter (\<lambda>f. percentage f > 10) xs)"
  by (induction xs arbitrary: acc) simp_all

text \<open>
  C5. The bottleneck list is made of exactly the records among the first ten whose
  percentage is strictly greater than 10, in their order, each rendered as
  \<open>name (percentage% of total time)\<close> with the percentage in the \<open>.1f\<close> format. A record
  whose percentage is exactly 10 does not pass the filter.
\<close>

theorem identify_bottlenecks_spec:
  "identify_bottlenecks lib hot_funcs =
     map (\<lambda>f. name f @ '' ('' @ format_1f lib (percentage f) @ ''% of total time)'')
       (filter (\<lambda>f. percentage f > 10) (take 10 hot_funcs))"
  by (simp add: identify_bottlenecks_def bottleneck_loop_eq)

lemma high_calls_loop_eq:
  "high_calls_loop xs acc =
     acc @ map (\<lambda>f. ''Consider optimizing '' @ name f @ '': called '' @ int_comma (total_calls f) @ '' times'')
             (filter (\<lambda>f. total_calls f > 10000) xs)"
  by (induction xs arbitrary: acc) simp_all

lemma slow_loop_eq:
  "slow_loop lib run_time xs acc =
     acc @ map (\<lambda>f. ''Hot path detected in '' @ name f @ '': '' @ format_3f lib (cumulative_time f) @
                  ''s ('' @ format_1f lib (percentage f) @ ''%)'')
             (filter (\<lambda>f. cumulative_time f > run_time * 0.2) xs)"
  by (induction xs arbitrary: acc) simp_all

lemma recursive_loop_eq:
  "recursive_loop xs acc =
     acc @ map (\<lambda>f. ''Recursive function '' @ name f @ '': '' @ int_str (total_calls f) @ '' calls ('' @
                  int_str (primitive_calls f) @ '' primitive)'')
             (filter (\<lambda>f. primitive_calls f < total_calls f) xs)"
  by (induction xs arbitrary: acc) simp_all

lemma int_comma_10001: "int_comma 10001 = ''10,001''"
  by (simp add: int_comma_def nat_comma.simps nat_str.simps three_digits_def digit_char_def)

lemma int_str_10001: "int_str 10001 = ''10001''"
  by (simp add: int_str_def nat_str.simps digit_char_def)

text \<open>
  C3, as the code has it. An empty list gives the single recommendation
  \<open>No significant performance issues detected.\<close>; otherwise the three rules are applied
  in the fixed order (more than 10000 calls among the first five records, cumulative time
  above 0.2 times the run time among the first five, fewer primitive than total calls
  among the first ten), every matching record gives one message, and when no rule fires
  the single recommendation is \<open>Performance looks good! No major bottlenecks detected.\<close>
  The message of the first rule writes the call count with thousands separators
  (\<open>int_comma\<close>), the message of the third rule writes the counts plainly (\<open>int_str\<close>).
\<close>

theorem generate_recommendations_spec:
  "generate_recommendations lib hot_funcs run_time =
     (if hot_funcs = [] then [''No significant performance issues detected.'']
      else
        let fired =
          map (\<lambda>f. ''Consider optimizing '' @ name f @ '': called '' @ int_comma (total_calls f) @ '' times'')
            (filter (\<lambda>f. total_calls f > 10000) (take 5 hot_funcs)) @
          map (\<lambda>f. ''Hot path detected in '' @ name f @ '': '' @ format_3f lib (cumulative_time f) @
                 ''s ('' @ format_1f lib (percentage f) @ ''%)'')
            (filter (\<lambda>f. cumulative_time f > run_time * 0.2) (take 5 hot_funcs)) @
          map (\<lambda>f. ''Recursive function '' @ name f @ '': '' @ int_str (total_calls f) @ '' calls ('' @
                 int_str (primitive_calls f) @ '' primitive)'')
            (filter (\<lambda>f. primitive_calls f < total_calls f) (take 10 hot_funcs))
        in if fired = [] then [''Performance looks good! No major bottlenecks detected.'']
           else fired)"
  by (simp add: generate_recommendations_def high_calls_loop_eq slow_loop_eq recursive_loop_eq Let_def)

text \<open>
  C3 as stated fails: for a record \<open>f\<close> with 10001 calls the first rule gives
  \<open>Consider optimizing f: called 10,001 times\<close>, which is not the message with the plain
  count, \<open>Consider optimizing f: called 10001 times\<close>.
\<close>

theorem generate_recommendations_counterexample:
  "generate_recommendations example_lib
     [\<lparr>name = ''f'', filename = ''a.py'', line_number = 1, total_calls = 10001,
       primitive_calls = 10001, total_time = 0, cumulative_time = 0, time_per_call = 0,
       cumulative_per_call = 0, percentage = 0\<rparr>] 1
   = [''Consider optimizing f: called 10,001 times'']
   \<and> ''Consider optimizing f: called 10,001 times''
       \<noteq> ''Consider optimizing '' @ ''f'' @ '': called '' @ int_str 10001 @ '' times''"
  by (simp add: generate_recommendations_def int_comma_10001 int_str_10001)

section \<open>Properties of the string operations and of the row parser\<close>

lemma split_on_nonempty: "split_on sep s \<noteq> []"
  by (induction s) (auto split: list.splits)

lemma split_on_no_sep: "sep \<notin> set s \<Longrightarrow> split_on sep s = [s]"
  by (induction s) auto

lemma split_on_length: "length (split_on sep s) = Suc (length (filter (\<lambda>c. c = sep) s))"
  by (induction s) (auto split: list.splits simp: split_on_nonempty)

lemma split_on_cons_sep: "sep \<notin> set a \<Longrightarrow> split_on sep (a @ sep # b) = a # split_on sep b"
  by (induction a) auto

lemma split_on_two:
  assumes "split_on sep s = [p, t]"
  shows "s = p @ sep # t \<and> sep \<notin> set p \<and> sep \<notin> set t"
  using assms
proof (induction s arbitrary: p)
  case Nil
  then show ?case by simp
next
  case (Cons c cs)
  show ?case
  proof (cases "c = sep")
    case True
    with Cons.prems have p: "p = []" and t: "split_on sep cs = [t]" by auto
    from t have "length (filter (\<lambda>c. c = sep) cs) = 0"
      using split_on_length[of sep cs] by simp
    then have "sep \<notin> set cs" by (auto simp: filter_empty_conv)
    with t have "cs = t" by (simp add: split_on_no_sep)
    with True p \<open>sep \<notin> set cs\<close> show ?thesis by simp
  next
    case False
    with Cons.prems obtain p' where sp: "split_on sep cs = [p', t]" and p: "p = c # p'"
      by (auto split: list.splits)
    from Cons.IH[OF sp] False p show ?thesis by auto
  qed
qed

lemma split_on_decompose:
  assumes "s = P @ sep # T" and "split_on sep s = [p, t]"
  shows "P = p \<and> T = t"
proof -
  from split_on_two[OF assms(2)] have s: "s = p @ sep # t" and np: "sep \<notin> set p" and nt: "sep \<notin> set t"
    by auto
  have cnt: "length (filter (\<lambda>c. c = sep) s) = 1"
    using split_on_length[of sep s] assms(2) by simp
  from cnt assms(1) have "sep \<notin> set P" "sep \<notin> set T"
    by (auto simp: filter_empty_conv)
  with assms(1) s np show ?thesis
    by (metis append_Cons_eq_iff)
qed


lemma digit_not_space: "is_ascii_digit c \<Longrightarrow> \<not> is_space c"
  by (auto simp: is_ascii_digit_def is_space_def)

lemma digit_not_special:
  "is_ascii_digit c \<Longrightarrow> c \<noteq> CHR ''_'' \<and> c \<noteq> CHR ''-'' \<and> c \<noteq> CHR ''+'' \<and> c \<noteq> CHR '':'' \<and> c \<noteq> CHR ''(''"
  by (auto simp: is_ascii_digit_def)

lemma int_digits_ascii:
  "s \<noteq> [] \<Longrightarrow> list_all is_ascii_digit s \<Longrightarrow>
     int_digits acc s = Some (foldl (\<lambda>a c. a * 10 + digit_val c) acc s)"
proof (induction acc s rule: int_digits.induct)
  case (1 acc)
  then show ?case by simp
next
  case (2 acc c)
  then show ?case by simp
next
  case (3 acc c d ds)
  then have "d \<noteq> CHR ''_''" using digit_not_special[of d] by simp
  with 3 show ?case by simp
qed

lemma strip_ws_digits: "s \<noteq> [] \<Longrightarrow> list_all is_ascii_digit s \<Longrightarrow> strip_ws s = s"
proof -
  assume ne: "s \<noteq> []" and ad: "list_all is_ascii_digit s"
  then have h: "\<not> is_space (hd s)" and l: "\<not> is_space (last s)"
    by (auto simp: list_all_iff digit_not_space)
  from ne h have d1: "dropWhile is_space s = s" by (cases s) auto
  from ne l have d2: "dropWhile is_space (rev s) = rev s"
    by (cases "rev s") (auto simp: last_rev hd_rev dest: arg_cong[where f=hd])
  show ?thesis by (simp add: strip_ws_def d1 d2)
qed

lemma py_int_digits:
  assumes "s \<noteq> []" and "list_all is_ascii_digit s"
  shows "py_int s = Some (int (digits_nat s))"
proof -
  from assms obtain c cs where s: "s = c # cs" by (cases s) auto
  with assms(2) have "is_ascii_digit c" by simp
  then have "c \<noteq> CHR ''-''" "c \<noteq> CHR ''+''" using digit_not_special[of c] by auto
  then show ?thesis
    using assms s by (simp add: py_int_def strip_ws_digits int_digits_ascii digits_nat_def del: int_digits.simps)
qed

lemma isdigit_ascii: "s \<noteq> [] \<Longrightarrow> list_all is_ascii_digit s \<Longrightarrow> isdigit s"
  by (auto simp: isdigit_def list_all_iff)

lemma takeWhile_until: "sep \<notin> set xs \<Longrightarrow> takeWhile (\<lambda>c. c \<noteq> sep) (xs @ sep # ys) = xs"
  by (induction xs) auto

lemma dropWhile_until: "sep \<notin> set xs \<Longrightarrow> dropWhile (\<lambda>c. c \<noteq> sep) (xs @ sep # ys) = sep # ys"
  by (induction xs) auto

lemma rsplit1_last:
  assumes "sep \<notin> set b"
  shows "rsplit1 sep (a @ sep # b) = [a, b]"
proof -
  from assms have nb: "sep \<notin> set (rev b)" by simp
  show ?thesis
    by (simp add: rsplit1_def takeWhile_until[OF nb] dropWhile_until[OF nb])
qed

lemma rstrip_char_close:
  "s = [] \<or> last s \<noteq> ch \<Longrightarrow> rstrip_char ch (s @ [ch]) = s"
  by (cases "rev s") (auto simp: rstrip_char_def dest: arg_cong[where f=rev])


lemma try_then_Inr: "try_then m f = Inr r \<longleftrightarrow> (\<exists>v. m = Inr v \<and> f v = Inr r)"
  by (cases m) (auto simp: try_then_def)

lemma py_index_Inr: "py_index xs i = Inr v \<longleftrightarrow> (i < length xs \<and> v = xs ! i)"
  by (auto simp: py_index_def)

lemma to_float_Inr: "to_float lib s = Inr x \<longleftrightarrow> float_of_str lib s = Some x"
  by (auto simp: to_float_def split: option.splits)

lemma to_int_Inr: "to_int s = Inr i \<longleftrightarrow> py_int s = Some i"
  by (auto simp: to_int_def split: option.splits)

lemma parse_row_Inr:
  assumes "parse_row lib run_time parts = Inr r"
  shows "6 \<le> length parts
    \<and> float_of_str lib (parts ! 1) = Some (total_time r)
    \<and> float_of_str lib (parts ! 3) = Some (cumulative_time r)
    \<and> parse_func_info (parts ! 5) = Inr (filename r, line_number r, name r)
    \<and> parse_ncalls (parts ! 0) = Inr (primitive_calls r, total_calls r)
    \<and> percentage r = (if run_time > 0 then cumulative_time r / run_time * 100 else 0)"
  using assms
  by (auto simp: parse_row_def try_then_Inr py_index_Inr to_float_Inr Let_def split: prod.splits)


lemma parse_ncalls_slash:
  assumes "parse_ncalls (P @ ''/'' @ T) = Inr (p, t)"
  shows "py_int P = Some p \<and> py_int T = Some t"
proof -
  have mem: "CHR ''/'' \<in> set (P @ ''/'' @ T)" by simp
  from assms mem obtain a b where sp: "split_on CHR ''/'' (P @ ''/'' @ T) = [a, b]"
    and ab: "try_then (to_int a) (\<lambda>pc. try_then (to_int b) (\<lambda>tc. Inr (pc, tc))) = Inr (p, t)"
    unfolding parse_ncalls_def
    by (simp split: list.splits)
  from split_on_decompose[of "P @ ''/'' @ T" P "CHR ''/''" T a b] sp
  have "P = a" "T = b" by auto
  with ab show ?thesis by (auto simp: try_then_Inr to_int_Inr)
qed

lemma parse_ncalls_plain:
  assumes "CHR ''/'' \<notin> set c" and "parse_ncalls c = Inr (p, t)"
  shows "py_int c = Some p \<and> t = p"
  using assms by (auto simp: parse_ncalls_def try_then_Inr to_int_Inr)

lemma parse_func_info_full:
  assumes "CHR ''('' \<notin> set fpath" and "line \<noteq> []" and "list_all is_ascii_digit line"
    and "CHR ''('' \<notin> set fname" and "fname = [] \<or> last fname \<noteq> CHR '')''"
  shows "parse_func_info (fpath @ '':'' @ line @ ''('' @ fname @ '')'') = Inr (fpath, int (digits_nat line), fname)"
proof -
  from assms(3) have lp: "CHR ''('' \<notin> set line" and lc: "CHR '':'' \<notin> set line"
    using digit_not_special by (auto simp: list_all_iff)
  have np: "CHR ''('' \<notin> set (fpath @ CHR '':'' # line)" using assms(1) lp by simp
  have sp: "split_on CHR ''('' ((fpath @ CHR '':'' # line) @ CHR ''('' # (fname @ [CHR '')''])) =
      [fpath @ CHR '':'' # line, fname @ [CHR '')'']]"
    using split_on_cons_sep[OF np, of "fname @ [CHR '')'']"]
      split_on_no_sep[of "CHR ''(''" "fname @ [CHR '')'']"] assms(4)
    by simp
  have rs: "rsplit1 CHR '':'' (fpath @ CHR '':'' # line) = [fpath, line]"
    by (rule rsplit1_last[OF lc])
  have st: "rstrip_char CHR '')'' (fname @ [CHR '')'']) = fname"
    by (rule rstrip_char_close[OF assms(5)])
  have tok: "fpath @ '':'' @ line @ ''('' @ fname @ '')'' =
      (fpath @ CHR '':'' # line) @ CHR ''('' # (fname @ [CHR '')''])" by simp
  have c1: "CHR '':'' \<in> set ((fpath @ CHR '':'' # line) @ CHR ''('' # (fname @ [CHR '')'']))" by simp
  have c2: "CHR ''('' \<in> set ((fpath @ CHR '':'' # line) @ CHR ''('' # (fname @ [CHR '')'']))" by simp
  have c3: "CHR '':'' \<in> set (fpath @ CHR '':'' # line)" by simp
  show ?thesis
    unfolding tok parse_func_info_def sp
    using c1 c2 c3
    by (simp add: py_index_def try_then_def rs st isdigit_ascii[OF assms(2,3)] to_int_def
        py_int_digits[OF assms(2,3)] del: split_on.simps)
qed

lemma parse_func_info_unknown:
  "CHR '':'' \<notin> set tok \<or> CHR ''('' \<notin> set tok \<Longrightarrow> parse_func_info tok = Inr (''unknown'', 0, tok)"
  by (auto simp: parse_func_info_def)

lemma parse_func_info_late_colon:
  assumes "CHR '':'' \<notin> set pre" and "CHR ''('' \<notin> set pre" and "CHR '':'' \<in> set rest"
  shows "parse_func_info (pre @ ''('' @ rest) = Inr (pre, 0, rstrip_char CHR '')'' (hd (split_on CHR ''('' rest)))"
proof -
  have sp: "split_on CHR ''('' (pre @ CHR ''('' # rest) = pre # split_on CHR ''('' rest"
    by (rule split_on_cons_sep[OF assms(2)])
  obtain x xs where r: "split_on CHR ''('' rest = x # xs"
    using split_on_nonempty[of "CHR ''(''" rest] by (cases "split_on CHR ''('' rest") auto
  show ?thesis
    unfolding parse_func_info_def
    using assms by (simp add: sp r py_index_def try_then_def del: split_on.simps)
qed


lemma parse_lines_eq:
  "parse_lines lib run_time ls seen acc =
     acc @ List.map_filter (row_of lib run_time) (data_lines ls seen)"
proof (induction ls arbitrary: seen acc)
  case Nil
  then show ?case by simp
next
  case (Cons l ls)
  have hd: "(contains ''ncalls'' l \<and> contains ''tottime'' l) = is_header l"
    by (simp add: is_header_def)
  have step: "parse_lines lib run_time (l # ls) seen acc =
     (if is_header l then parse_lines lib run_time ls True acc
      else if \<not> seen then parse_lines lib run_time ls seen acc
      else case row_of lib run_time l of
             None \<Rightarrow> parse_lines lib run_time ls seen acc
           | Some r \<Rightarrow> parse_lines lib run_time ls seen (acc @ [r]))"
    unfolding parse_lines.simps hd
    by (simp add: row_of_def Let_def split: sum.splits parse_error.splits)
  show ?case
    unfolding step
    by (simp add: Cons.IH split: option.splits)
qed

lemma set_data_lines: "set (data_lines ls seen) \<subseteq> set ls"
  by (induction ls arbitrary: seen) auto

lemma row_of_Some:
  "row_of lib run_time l = Some r \<Longrightarrow>
     length (split_ws 5 l) \<ge> 6 \<and> parse_row lib run_time (split_ws 5 l) = Inr r"
  by (auto simp: row_of_def Let_def split: if_splits sum.splits)

lemma parse_output_rows:
  assumes "r \<in> set (parse_output lib run_time output)"
  shows "\<exists>line \<in> set (split_on CHR 0x0A output).
           parse_row lib run_time (split_ws 5 line) = Inr r"
proof -
  from assms obtain l where l: "l \<in> set (data_lines (split_on CHR 0x0A output) False)"
    and r: "row_of lib run_time l = Some r"
    by (auto simp: parse_output_def parse_lines_eq List.map_filter_def)
  from l set_data_lines have "l \<in> set (split_on CHR 0x0A output)" by blast
  with row_of_Some[OF r] show ?thesis by blast
qed




section \<open>Properties of the stats parser\<close>

lemma example_parse: "parse_output example_lib 1 example_dump =
  [\<lparr>name = ''fib'', filename = ''fib.py'', line_number = 1, total_calls = 1, primitive_calls = 3,
     total_time = 0, cumulative_time = 1/4, time_per_call = 0, cumulative_per_call = 1/4, percentage = 25\<rparr>,
   \<lparr>name = ''main'', filename = ''fib.py'', line_number = 9, total_calls = 1, primitive_calls = 1,
     total_time = 1/10, cumulative_time = 1/10, time_per_call = 1/10, cumulative_per_call = 1/10, percentage = 10\<rparr>]"
  by code_simp

text \<open>
  C1. The claim asks that every retained record has \<open>total_calls \<ge> primitive_calls\<close>.
  \<open>pstats\<close> prints the call count of a recursive function as total/primitive: the row
  \<open>3/1\<close> of the example dump is a function called three times, once primitively. The
  parser stores the first number as \<open>primitive_calls\<close> and the second as \<open>total_calls\<close>,
  so the record of that row has \<open>primitive_calls = 3\<close> and \<open>total_calls = 1\<close>, and the
  recommendation rule for recursive functions, which tests
  \<open>primitive_calls < total_calls\<close>, gives nothing for it.
\<close>

theorem parse_call_counts_swapped:
  "length (parse_output example_lib 1 example_dump) = 2
   \<and> primitive_calls (parse_output example_lib 1 example_dump ! 0) = 3
   \<and> total_calls (parse_output example_lib 1 example_dump ! 0) = 1
   \<and> \<not> primitive_calls (parse_output example_lib 1 example_dump ! 0)
         \<le> total_calls (parse_output example_lib 1 example_dump ! 0)
   \<and> recursive_loop (parse_output example_lib 1 example_dump) [] = []"
  by (simp add: example_parse)

text \<open>
  C4, as the code has it. A token \<open>file:line(name)\<close>, where \<open>file\<close> and \<open>name\<close> have no
  opening parenthesis, \<open>line\<close> is a non-empty string of the digits 0..9 and \<open>name\<close> does not
  end with a closing parenthesis, gives the three components. A token without a colon or
  without an opening parenthesis becomes the name as a whole, with the file \<open>unknown\<close>
  and the line 0. A token whose only colons come after its first opening parenthesis gives
  the part before that parenthesis as the file, with the line 0. The record of a retained
  row has the three components of its sixth field.
\<close>

theorem parse_func_info_spec:
  "(CHR ''('' \<notin> set fpath \<and> line \<noteq> [] \<and> list_all is_ascii_digit line \<and> CHR ''('' \<notin> set fname \<and>
      (fname = [] \<or> last fname \<noteq> CHR '')'') \<longrightarrow>
      parse_func_info (fpath @ '':'' @ line @ ''('' @ fname @ '')'') = Inr (fpath, int (digits_nat line), fname))
   \<and> (CHR '':'' \<notin> set tok \<or> CHR ''('' \<notin> set tok \<longrightarrow> parse_func_info tok = Inr (''unknown'', 0, tok))
   \<and> (CHR '':'' \<notin> set pre \<and> CHR ''('' \<notin> set pre \<and> CHR '':'' \<in> set rest \<longrightarrow>
        parse_func_info (pre @ ''('' @ rest) =
          Inr (pre, 0, rstrip_char CHR '')'' (hd (split_on CHR ''('' rest))))
   \<and> (parse_row lib run_time parts = Inr r \<longrightarrow>
        parse_func_info (parts ! 5) = Inr (filename r, line_number r, name r))"
  using parse_func_info_full[of fpath line fname] parse_func_info_unknown[of tok]
    parse_func_info_late_colon[of pre rest] parse_row_Inr[of lib run_time parts r]
  by blast

lemma example_row: "parse_row example_lib 1 (split_ws 5 ''      3/1    0.000    0.000    0.250    0.250 fib.py:1(fib)'') =
        Inr \<lparr>name = ''fib'', filename = ''fib.py'', line_number = 1, total_calls = 1,
          primitive_calls = 3, total_time = 0, cumulative_time = 1/4, time_per_call = 0,
          cumulative_per_call = 1/4, percentage = 25\<rparr>"
  by code_simp

lemma example_fields: "split_ws 5 ''      3/1    0.000    0.000    0.250    0.250 fib.py:1(fib)'' ! 5 = ''fib.py:1(fib)''"
  by code_simp

lemma digits_nat_12: "digits_nat ''12'' = 12"
  by code_simp

text \<open>The four cases on concrete tokens.\<close>

theorem parse_func_info_spec_witness:
  "parse_func_info ''fib.py:12(fib)'' = Inr (''fib.py'', 12, ''fib'')
   \<and> parse_func_info ''{built-in method builtins.exec}'' =
        Inr (''unknown'', 0, ''{built-in method builtins.exec}'')
   \<and> parse_func_info ''foo(a:b)'' = Inr (''foo'', 0, ''a:b'')
   \<and> parse_func_info ''fib.py:1(fib)'' = Inr (''fib.py'', 1, ''fib'')"
  using parse_func_info_spec[where fpath = "''fib.py''" and line = "''12''" and fname = "''fib''"
      and tok = "''{built-in method builtins.exec}''" and pre = "''foo''" and rest = "''a:b)''"
      and lib = example_lib and run_time = 1
      and parts = "split_ws 5 ''      3/1    0.000    0.000    0.250    0.250 fib.py:1(fib)''"
      and r = "\<lparr>name = ''fib'', filename = ''fib.py'', line_number = 1, total_calls = 1,
          primitive_calls = 3, total_time = 0, cumulative_time = 1/4, time_per_call = 0,
          cumulative_per_call = 1/4, percentage = 25\<rparr>"]
  by (simp add: example_row example_fields digits_nat_12 is_ascii_digit_def rstrip_char_def)

text \<open>
  C4 as stated fails: the token \<open>foo(bar)\<close> has no colon, and its file is \<open>unknown\<close>, not
  the part \<open>foo\<close> before the parenthesis.
\<close>

theorem parse_func_info_counterexample:
  "parse_func_info ''foo(bar)'' = Inr (''unknown'', 0, ''foo(bar)'')
   \<and> split_on CHR ''('' ''foo(bar)'' ! 0 = ''foo''
   \<and> ''unknown'' \<noteq> ''foo''"
  by (simp add: parse_func_info_def)

section \<open>Properties of profiling\<close>

lemma unlink_argv: "sys_argv (unlink p w) = sys_argv w"
  by (simp add: unlink_def)

text \<open>
  C10. Whenever \<open>profile\<close> returns a report or raises (the script was not found, the
  script raised an \<open>Exception\<close>, or a \<open>BaseException\<close> went through), \<open>sys.argv\<close> is what
  it was before the call, whatever the script did to it.
\<close>

theorem profile_restores_argv:
  assumes "profile lib run_script tmp_path dump w path script_args = Some (result, w')"
  shows "sys_argv w' = sys_argv w"
  using assms
  by (auto simp: profile_def Let_def unlink_argv split: if_splits option.splits prod.splits script_outcome.splits)






text \<open>A run that returns and a run that raises, both of which empty \<open>sys.argv\<close>.\<close>

theorem profile_restores_argv_witness:
  "(\<exists>report w'. profile example_lib example_run ''tmp.prof'' ''stats'' example_world ''fib.py'' [''-v'']
       = Some (Inr report, w') \<and> sys_argv w' = [''profilescope'', ''run'', ''fib.py''])
   \<and> (\<exists>e w'. profile example_lib (\<lambda>p w. Some (Raised ''boom'', w\<lparr>sys_argv := []\<rparr>)) ''tmp.prof'' ''stats''
       example_world ''fib.py'' [''-v''] = Some (Inl (RuntimeError e), w')
       \<and> sys_argv w' = [''profilescope'', ''run'', ''fib.py''])"
proof -
  have a: "\<exists>report w'. profile example_lib example_run ''tmp.prof'' ''stats'' example_world ''fib.py'' [''-v'']
       = Some (Inr report, w')"
    by (simp add: profile_def example_run_def example_world_def Let_def)
  have b: "\<exists>e w'. profile example_lib (\<lambda>p w. Some (Raised ''boom'', w\<lparr>sys_argv := []\<rparr>)) ''tmp.prof'' ''stats''
       example_world ''fib.py'' [''-v''] = Some (Inl (RuntimeError e), w')"
    by (simp add: profile_def example_world_def Let_def)
  have s: "sys_argv example_world = [''profilescope'', ''run'', ''fib.py'']"
    by (simp add: example_world_def)
  from a b show ?thesis
    using profile_restores_argv s by metis
qed

section \<open>Properties of the comparison\<close>

lemma float_limit_ge: "(2::real) ^ 970 \<le> float_limit"
proof -
  have "(2::real) ^ 1024 = 2 ^ 970 * 2 ^ 54" by (simp add: power_add[symmetric])
  then have "float_limit = 2 ^ 970 * (2 ^ 54 - 1)"
    by (simp add: float_limit_def algebra_simps)
  moreover have "(1::real) \<le> 2 ^ 54 - 1" by simp
  ultimately show ?thesis
    by (metis less_eq_real_def mult.right_neutral mult_left_mono zero_less_numeral zero_less_power)
qed

lemma float_limit_big: "(1000000::real) < float_limit"
proof -
  have "(1000000::real) < 2 ^ 20" by simp
  also have "(2::real) ^ 20 \<le> 2 ^ 970" by (rule power_increasing) simp_all
  also note float_limit_ge
  finally show ?thesis .
qed

lemma float_limit_pos: "0 < float_limit"
  using float_limit_big by linarith

lemma round_float_in_range: "\<bar>x\<bar> < float_limit \<Longrightarrow> round_float x = Fin x"
  by (auto simp: round_float_def)

lemma round_float_zero: "round_float 0 = Fin 0"
  using float_limit_pos by (simp add: round_float_in_range)

lemma float_limit_100: "\<not> float_limit \<le> 100"
  using float_limit_big by linarith

lemma times_100_bound: "\<bar>q * 100\<bar> < float_limit \<Longrightarrow> \<bar>q\<bar> < float_limit"
proof -
  assume a: "\<bar>q * 100\<bar> < float_limit"
  have "\<bar>q\<bar> \<le> \<bar>q\<bar> * 100" by simp
  also have "\<dots> = \<bar>q * 100\<bar>" by (simp add: abs_mult)
  finally show ?thesis using a by linarith
qed

lemma change_percent_ints:
  assumes "bi \<noteq> 0 \<longrightarrow> \<bar>(real_of_int ci - real_of_int bi) / real_of_int bi * 100\<bar> < float_limit"
    and "0 \<le> bi"
  shows "change_percent (JInt bi) (JInt ci) =
     Inr (PFloat (Fin (if bi = 0 then 0
        else (real_of_int ci - real_of_int bi) / real_of_int bi * 100)))"
proof (cases "bi = 0")
  case True
  then show ?thesis by (simp add: change_percent_def num_val_def)
next
  case False
  with assms have pos: "0 < bi"
    and r: "\<bar>(real_of_int ci - real_of_int bi) / real_of_int bi * 100\<bar> < float_limit" by auto
  let ?q = "(real_of_int ci - real_of_int bi) / real_of_int bi"
  from times_100_bound[OF r] have q: "\<bar>?q\<bar> < float_limit" .
  then have nq: "\<not> float_limit \<le> \<bar>?q\<bar>" by simp
  show ?thesis
    using pos False nq round_float_in_range[OF r]
    by (simp add: change_percent_def num_val_def try_then_def float_limit_100)
qed

lemma change_percent_finite:
  assumes "finite_val jb = Some b" and "finite_val jc = Some c"
    and "0 \<le> b" and "0 \<le> c" and "b < float_limit" and "c < float_limit"
    and "b \<noteq> 0 \<longrightarrow> \<bar>(c - b) / b * 100\<bar> < float_limit"
  shows "change_percent jb jc = Inr (PFloat (Fin (if b = 0 then 0 else (c - b) / b * 100)))"
proof (cases "b = 0")
  case True
  with assms(1) show ?thesis
    by (cases jb) (auto simp: change_percent_def num_val_def finite_val_def)
next
  case False
  with assms have pos: "0 < b" and r: "\<bar>(c - b) / b * 100\<bar> < float_limit" by auto
  from times_100_bound[OF r] have q: "\<bar>(c - b) / b\<bar> < float_limit" .
  have d: "\<bar>c - b\<bar> < float_limit" using assms(3-6) by linarith
  have ab: "\<not> float_limit \<le> \<bar>b\<bar>" "\<not> float_limit \<le> \<bar>c\<bar>" using assms(3-6) by auto
  have nz: "Fin b \<noteq> Fin 0" using False by simp
  note rs = round_float_in_range[OF r] round_float_in_range[OF q] round_float_in_range[OF d]
  show ?thesis
  proof (cases jb)
    case (JInt bi)
    with assms(1) have b: "b = real_of_int bi" by (simp add: finite_val_def)
    show ?thesis
    proof (cases jc)
      case (JInt ci)
      with assms(2) have c: "c = real_of_int ci" by (simp add: finite_val_def)
      have "0 \<le> bi" using assms(3) b by simp
      moreover have "bi \<noteq> 0 \<longrightarrow> \<bar>(real_of_int ci - real_of_int bi) / real_of_int bi * 100\<bar> < float_limit"
        using r b c by simp
      ultimately show ?thesis
        using change_percent_ints[of bi ci] \<open>jb = JInt bi\<close> \<open>jc = JInt ci\<close> b c by simp
    next
      case (JFloat x)
      with assms(2) have c: "c = x" by (simp add: finite_val_def)
      show ?thesis
        using pos False ab nz rs \<open>jb = JInt bi\<close> \<open>jc = JFloat x\<close> b c
        by (simp add: change_percent_def num_val_def try_then_def float_limit_100)
    qed (use assms(2) in \<open>simp_all add: finite_val_def\<close>)
  next
    case (JFloat y)
    with assms(1) have b: "b = y" by (simp add: finite_val_def)
    show ?thesis
    proof (cases jc)
      case (JInt ci)
      with assms(2) have c: "c = real_of_int ci" by (simp add: finite_val_def)
      show ?thesis
        using pos False ab nz rs \<open>jb = JFloat y\<close> \<open>jc = JInt ci\<close> b c
        by (simp add: change_percent_def num_val_def try_then_def float_limit_100)
    next
      case (JFloat x)
      with assms(2) have c: "c = x" by (simp add: finite_val_def)
      show ?thesis
        using pos False ab nz rs \<open>jb = JFloat y\<close> \<open>jc = JFloat x\<close> b c
        by (simp add: change_percent_def num_val_def try_then_def float_limit_100)
    qed (use assms(2) in \<open>simp_all add: finite_val_def\<close>)
  qed (use assms(1) in \<open>simp_all add: finite_val_def\<close>)
qed

lemma compare_reports_loaded:
  assumes "fs w bp = Some tb" and "fs w cp = Some tc"
    and "json_load lib tb = Some b" and "json_load lib tc = Some c"
  shows "compare_reports lib w bp cp = compare_loaded b c"
  using assms by (simp add: compare_reports_def)

lemma has_key_Some: "has_key ok kvs key \<Longrightarrow> \<exists>v. map_of kvs key = Some v \<and> ok v"
  by (auto simp: has_key_def split: option.splits)

lemma is_string_list_set: "is_string_list v \<Longrightarrow> \<exists>s. py_set v = Inr s"
proof (cases v)
  case (JArr xs)
  assume "is_string_list v"
  with JArr have "list_all is_string xs" by (simp add: is_string_list_def)
  then have "list_all hashable xs"
    by (auto simp: list_all_iff is_string_def hashable_def split: json.splits)
  with JArr show ?thesis by (simp add: py_set_def)
qed (auto simp: is_string_list_def)

lemma schema_bottlenecks:
  assumes "spec_report_schema b"
  shows "\<exists>bl bs. py_get b ''bottlenecks'' (JArr []) = Inr bl \<and> py_set bl = Inr bs"
proof -
  from assms obtain kb where b: "b = JObj kb"
    by (cases b) (auto simp: spec_report_schema_def)
  from assms b obtain bl where k: "map_of kb ''bottlenecks'' = Some bl" "is_string_list bl"
    unfolding spec_report_schema_def by (auto dest!: has_key_Some)
  from is_string_list_set[OF k(2)] obtain bs where "py_set bl = Inr bs" by blast
  with k b show ?thesis by (simp add: py_get_def)
qed

lemma compare_loaded_entries:
  assumes "py_getitem b ''total_time'' = Inr jbt" and "py_getitem c ''total_time'' = Inr jct"
    and "change_percent jbt jct = Inr t"
    and "py_getitem b ''total_calls'' = Inr jbc" and "py_getitem c ''total_calls'' = Inr jcc"
    and "change_percent jbc jcc = Inr k"
    and "py_get b ''bottlenecks'' (JArr []) = Inr bl" and "py_set bl = Inr bs"
    and "py_get c ''bottlenecks'' (JArr []) = Inr cl" and "py_set cl = Inr cs"
  shows "compare_loaded b c =
     Inr \<lparr>baseline_time = jbt, current_time = jct, time_change_percent = t,
          baseline_calls = jbc, current_calls = jcc, calls_change_percent = k,
          new_bottlenecks = cs - bs, fixed_bottlenecks = bs - cs,
          regression_detected = (py_gt t (PFloat (Fin 10)) \<or> py_gt k (PFloat (Fin 20)))\<rparr>"
  using assms by (simp add: compare_loaded_def try_then_def)

text \<open>
  C2, as the code has it. For two files that load to reports of the schema whose
  \<open>total_time\<close> and \<open>total_calls\<close> are finite and not negative, as the data model has them,
  and whose totals and percentages stay below the overflow bound of a float,
  \<open>compare_reports\<close> returns a result: \<open>time_change_percent\<close> is
  \<open>(current - baseline) / baseline * 100\<close> over the two \<open>total_time\<close> values, and 0, not an
  error, when the baseline's is 0; \<open>calls_change_percent\<close> is the same over \<open>total_calls\<close>;
  and \<open>regression_detected\<close> holds exactly when the first is greater than 10 or the second
  greater than 20.
\<close>

theorem compare_reports_percent:
  assumes "fs w bp = Some tb" and "fs w cp = Some tc"
    and "json_load lib tb = Some b" and "json_load lib tc = Some c"
    and "spec_report_schema b" and "spec_report_schema c"
    and "py_getitem b ''total_time'' = Inr jbt" and "finite_val jbt = Some bt"
    and "py_getitem c ''total_time'' = Inr jct" and "finite_val jct = Some ct"
    and "py_getitem b ''total_calls'' = Inr (JInt bc)"
    and "py_getitem c ''total_calls'' = Inr (JInt cc)"
    and "0 \<le> bt" and "0 \<le> ct" and "0 \<le> bc" and "0 \<le> cc"
    and "bt < float_limit" and "ct < float_limit"
    and "bt \<noteq> 0 \<longrightarrow> \<bar>(ct - bt) / bt * 100\<bar> < float_limit"
    and "bc \<noteq> 0 \<longrightarrow> \<bar>(real_of_int cc - real_of_int bc) / real_of_int bc * 100\<bar> < float_limit"
  shows "\<exists>r. compare_reports lib w bp cp = Inr r
    \<and> time_change_percent r = PFloat (Fin (if bt = 0 then 0 else (ct - bt) / bt * 100))
    \<and> calls_change_percent r =
        PFloat (Fin (if bc = 0 then 0
           else (real_of_int cc - real_of_int bc) / real_of_int bc * 100))
    \<and> regression_detected r =
        (10 < (if bt = 0 then 0 else (ct - bt) / bt * 100)
         \<or> 20 < (if bc = 0 then 0
              else (real_of_int cc - real_of_int bc) / real_of_int bc * 100))"
proof -
  have t: "change_percent jbt jct = Inr (PFloat (Fin (if bt = 0 then 0 else (ct - bt) / bt * 100)))"
    using assms by (intro change_percent_finite) simp_all
  have k: "change_percent (JInt bc) (JInt cc) =
      Inr (PFloat (Fin (if bc = 0 then 0
        else (real_of_int cc - real_of_int bc) / real_of_int bc * 100)))"
    using assms by (intro change_percent_ints) simp_all
  from schema_bottlenecks[OF assms(5)] obtain bl bs where
    bb: "py_get b ''bottlenecks'' (JArr []) = Inr bl" "py_set bl = Inr bs" by blast
  from schema_bottlenecks[OF assms(6)] obtain cl cs where
    cb: "py_get c ''bottlenecks'' (JArr []) = Inr cl" "py_set cl = Inr cs" by blast
  note L = compare_loaded_entries[OF assms(7) assms(9) t assms(11) assms(12) k bb cb]
  show ?thesis
    unfolding compare_reports_loaded[OF assms(1-4)] L
    by simp
qed

lemma two_files_fs:
  "fs two_files ''baseline.json'' = Some ''B''" "fs two_files ''current.json'' = Some ''C''"
  by (simp_all add: two_files_def)

lemma load_table_load: "json_load (load_table table) = map_of table"
  by (simp add: load_table_def)

lemma asdict_schema: "spec_function_schema (asdict f)"
  by (simp add: asdict_def spec_function_schema_def has_key_def is_string_def is_integer_def is_number_def)

lemma report_with_schema: "is_number t \<Longrightarrow> is_integer c \<Longrightarrow> spec_report_schema (report_with t c)"
  by (simp add: report_with_def spec_report_schema_def has_key_def is_string_def is_string_list_def
      asdict_schema extract_call_tree_def spec_call_tree_schema_def is_integer_def)

lemma report_with_items:
  "py_getitem (report_with t c) ''total_time'' = Inr t"
  "py_getitem (report_with t c) ''total_calls'' = Inr c"
  by (simp_all add: report_with_def py_getitem_def)

text \<open>
  The scenario of the specification: times 1.0 and 2.5, calls 100 and 150, give changes of
  150 and 50 percent and a regression.
\<close>

theorem compare_reports_percent_witness:
  "\<exists>r. compare_reports
          (load_table [(''B'', report_with (JFloat 1) (JInt 100)),
                       (''C'', report_with (JFloat 2.5) (JInt 150))])
          two_files ''baseline.json'' ''current.json'' = Inr r
     \<and> time_change_percent r = PFloat (Fin 150)
     \<and> calls_change_percent r = PFloat (Fin 50)
     \<and> regression_detected r"
proof -
  have s: "spec_report_schema (report_with (JFloat 1) (JInt 100))"
    "spec_report_schema (report_with (JFloat 2.5) (JInt 150))"
    by (simp_all add: report_with_schema is_number_def is_integer_def)
  have b: "(1::real) < float_limit" "(2.5::real) < float_limit"
    "\<bar>((2.5::real) - 1) / 1 * 100\<bar> < float_limit"
    "\<bar>(real_of_int 150 - real_of_int 100) / real_of_int 100 * 100\<bar> < float_limit"
    using float_limit_big by simp_all
  from compare_reports_percent[where lib = "load_table [(''B'', report_with (JFloat 1) (JInt 100)),
                       (''C'', report_with (JFloat 2.5) (JInt 150))]"
      and w = two_files and bp = "''baseline.json''" and cp = "''current.json''"
      and tb = "''B''" and tc = "''C''"
      and b = "report_with (JFloat 1) (JInt 100)" and c = "report_with (JFloat 2.5) (JInt 150)"
      and jbt = "JFloat 1" and bt = 1 and jct = "JFloat 2.5" and ct = "2.5" and bc = 100 and cc = 150]
  show ?thesis
    using s b by (simp add: two_files_fs load_table_load report_with_items finite_val_def)
qed

lemma big_quotient: "float_limit \<le> \<bar>real_of_int (10 ^ 400 - 1) / real_of_int 1\<bar>"
  by (simp add: float_limit_def)

text \<open>
  C2 as stated fails beyond the range of a float: for two reports of the schema with 1
  and \<open>10 ^ 400\<close> calls the quotient of the two integers is too large for a float, and
  \<open>compare_reports\<close> raises \<open>OverflowError\<close> instead of returning.
\<close>

theorem compare_reports_percent_counterexample:
  "spec_report_schema (report_with (JFloat 1) (JInt 1))
   \<and> spec_report_schema (report_with (JFloat 1) (JInt (10 ^ 400)))
   \<and> compare_reports
        (load_table [(''B'', report_with (JFloat 1) (JInt 1)),
                     (''C'', report_with (JFloat 1) (JInt (10 ^ 400)))])
        two_files ''baseline.json'' ''current.json'' = Inl OverflowError"
proof -
  have s: "spec_report_schema (report_with (JFloat 1) (JInt 1))"
    "spec_report_schema (report_with (JFloat 1) (JInt (10 ^ 400)))"
    by (simp_all add: report_with_schema is_number_def is_integer_def)
  have t: "change_percent (JFloat 1) (JFloat 1) = Inr (PFloat (Fin 0))"
    using float_limit_pos float_limit_100
    by (simp add: change_percent_def num_val_def try_then_def round_float_def)
  have k: "change_percent (JInt 1) (JInt (10 ^ 400)) = Inl OverflowError"
    using big_quotient by (simp add: change_percent_def num_val_def try_then_def)
  have "compare_loaded (report_with (JFloat 1) (JInt 1)) (report_with (JFloat 1) (JInt (10 ^ 400)))
      = Inl OverflowError"
    using k by (simp add: compare_loaded_def try_then_def report_with_items t)
  with s show ?thesis
    by (simp add: compare_reports_def two_files_fs load_table_load)
qed

lemma change_percent_same:
  assumes "change_percent v v = Inr x"
  shows "x = (if v = JInf then PFloat NaN else PFloat (Fin 0))"
proof (cases v)
  case (JInt i)
  with assms show ?thesis
    using float_limit_pos float_limit_100
    by (auto simp: change_percent_def num_val_def try_then_def round_float_def split: if_splits)
next
  case (JBool b)
  with assms show ?thesis
    using float_limit_pos float_limit_100
    by (auto simp: change_percent_def num_val_def try_then_def round_float_def split: if_splits)
next
  case (JFloat y)
  with assms show ?thesis
    using float_limit_pos float_limit_100
    by (auto simp: change_percent_def num_val_def try_then_def round_float_def split: if_splits)
qed (use assms in \<open>auto simp: change_percent_def num_val_def try_then_def float_limit_100\<close>)

lemma change_percent_same_total:
  assumes "num_val v = Some n"
  shows "\<exists>x. change_percent v v = Inr x"
proof (cases v)
  case (JInt i)
  then show ?thesis
    using float_limit_pos float_limit_100
    by (auto simp: change_percent_def num_val_def try_then_def round_float_def)
next
  case (JBool b)
  then show ?thesis
    using float_limit_pos float_limit_100
    by (auto simp: change_percent_def num_val_def try_then_def round_float_def)
next
  case (JFloat y)
  then show ?thesis
    using float_limit_pos float_limit_100
    by (auto simp: change_percent_def num_val_def try_then_def round_float_def)
qed (use assms in \<open>auto simp: change_percent_def num_val_def try_then_def float_limit_100\<close>)

lemma try_then_Inl: "try_then m f = Inl e \<longleftrightarrow> (m = Inl e \<or> (\<exists>v. m = Inr v \<and> f v = Inl e))"
  by (cases m) (auto simp: try_then_def)

lemma compare_loaded_Inr:
  assumes "compare_loaded b c = Inr r"
  shows "py_getitem b ''total_time'' = Inr (baseline_time r)
    \<and> py_getitem c ''total_time'' = Inr (current_time r)
    \<and> change_percent (baseline_time r) (current_time r) = Inr (time_change_percent r)
    \<and> py_getitem b ''total_calls'' = Inr (baseline_calls r)
    \<and> py_getitem c ''total_calls'' = Inr (current_calls r)
    \<and> change_percent (baseline_calls r) (current_calls r) = Inr (calls_change_percent r)
    \<and> (\<exists>bl cl bs cs. py_get b ''bottlenecks'' (JArr []) = Inr bl \<and> py_set bl = Inr bs
          \<and> py_get c ''bottlenecks'' (JArr []) = Inr cl \<and> py_set cl = Inr cs
          \<and> new_bottlenecks r = cs - bs \<and> fixed_bottlenecks r = bs - cs)
    \<and> regression_detected r =
        (py_gt (time_change_percent r) (PFloat (Fin 10)) \<or> py_gt (calls_change_percent r) (PFloat (Fin 20)))"
  using assms
  by (auto simp: compare_loaded_def try_then_Inr)

lemma compare_loaded_same:
  assumes "compare_loaded R R = Inr r"
  shows "py_getitem R ''total_time'' = Inr (baseline_time r)
    \<and> py_getitem R ''total_calls'' = Inr (baseline_calls r)
    \<and> time_change_percent r = (if baseline_time r = JInf then PFloat NaN else PFloat (Fin 0))
    \<and> calls_change_percent r = (if baseline_calls r = JInf then PFloat NaN else PFloat (Fin 0))
    \<and> new_bottlenecks r = {} \<and> fixed_bottlenecks r = {} \<and> \<not> regression_detected r"
proof -
  note L = compare_loaded_Inr[OF assms]
  from L have e: "baseline_time r = current_time r" "baseline_calls r = current_calls r" by auto
  from L e have t: "time_change_percent r = (if baseline_time r = JInf then PFloat NaN else PFloat (Fin 0))"
    using change_percent_same[of "baseline_time r" "time_change_percent r"] by simp
  from L e have c: "calls_change_percent r = (if baseline_calls r = JInf then PFloat NaN else PFloat (Fin 0))"
    using change_percent_same[of "baseline_calls r" "calls_change_percent r"] by simp
  from L have n: "new_bottlenecks r = {}" and f: "fixed_bottlenecks r = {}" by auto
  from L t c have g: "\<not> regression_detected r" by simp
  from L t c n f g show ?thesis by blast
qed

lemma is_number_num: "is_number v \<Longrightarrow> \<exists>x. num_val v = Some x"
  by (cases v) (auto simp: is_number_def num_val_def)

lemma is_integer_num: "is_integer v \<Longrightarrow> \<exists>x. num_val v = Some x"
  by (cases v) (auto simp: is_integer_def num_val_def)

lemma schema_entries:
  assumes "spec_report_schema b"
  shows "\<exists>t k. py_getitem b ''total_time'' = Inr t \<and> is_number t
     \<and> py_getitem b ''total_calls'' = Inr k \<and> is_integer k"
proof -
  from assms obtain kb where b: "b = JObj kb"
    by (cases b) (auto simp: spec_report_schema_def)
  from assms b show ?thesis
    unfolding spec_report_schema_def by (auto dest!: has_key_Some simp: py_getitem_def)
qed

lemma schema_compare_same:
  assumes "spec_report_schema R"
  shows "\<exists>r. compare_loaded R R = Inr r"
proof -
  from schema_entries[OF assms] obtain t k where
    e: "py_getitem R ''total_time'' = Inr t" "is_number t"
       "py_getitem R ''total_calls'' = Inr k" "is_integer k" by blast
  from e obtain x y where x: "change_percent t t = Inr x" and y: "change_percent k k = Inr y"
    using is_number_num is_integer_num change_percent_same_total by metis
  from schema_bottlenecks[OF assms] obtain bl bs where
    bb: "py_get R ''bottlenecks'' (JArr []) = Inr bl" "py_set bl = Inr bs" by blast
  from compare_loaded_entries[OF e(1) e(1) x e(3) e(3) y bb bb] show ?thesis by blast
qed

text \<open>
  C8, as the code has it. When both paths hold files that load to the same value \<open>R\<close>,
  every result of \<open>compare_reports\<close> has both bottleneck sets empty and no regression;
  \<open>time_change_percent\<close> is 0 unless the \<open>total_time\<close> of \<open>R\<close> is the float infinity, for
  which it is NaN, and \<open>calls_change_percent\<close> likewise over \<open>total_calls\<close>. When \<open>R\<close>
  conforms to the report schema the comparison does return a result.
\<close>

theorem compare_same_report:
  assumes "fs w bp = Some tb" and "fs w cp = Some tc"
    and "json_load lib tb = Some R" and "json_load lib tc = Some R"
  shows "(\<forall>r. compare_reports lib w bp cp = Inr r \<longrightarrow>
            py_getitem R ''total_time'' = Inr (baseline_time r)
          \<and> py_getitem R ''total_calls'' = Inr (baseline_calls r)
          \<and> time_change_percent r = (if baseline_time r = JInf then PFloat NaN else PFloat (Fin 0))
          \<and> calls_change_percent r = (if baseline_calls r = JInf then PFloat NaN else PFloat (Fin 0))
          \<and> new_bottlenecks r = {} \<and> fixed_bottlenecks r = {} \<and> \<not> regression_detected r)
    \<and> (spec_report_schema R \<longrightarrow> (\<exists>r. compare_reports lib w bp cp = Inr r))"
  using compare_reports_loaded[OF assms] compare_loaded_same[of R] schema_compare_same[of R]
  by auto

text \<open>A report of the schema with finite totals, saved under both names.\<close>

theorem compare_same_report_witness:
  "\<exists>r. compare_reports
          (load_table [(''B'', report_with (JFloat 1) (JInt 4)), (''C'', report_with (JFloat 1) (JInt 4))])
          two_files ''baseline.json'' ''current.json'' = Inr r
        \<and> time_change_percent r = PFloat (Fin 0) \<and> calls_change_percent r = PFloat (Fin 0)
        \<and> new_bottlenecks r = {} \<and> fixed_bottlenecks r = {} \<and> \<not> regression_detected r"
proof -
  let ?R = "report_with (JFloat 1) (JInt 4)"
  let ?lib = "load_table [(''B'', ?R), (''C'', ?R)]"
  have s: "spec_report_schema ?R"
    by (simp add: report_with_schema is_number_def is_integer_def)
  note T = compare_same_report[of two_files "''baseline.json''" "''B''" "''current.json''" "''C''"
      ?lib ?R, simplified two_files_fs load_table_load, simplified]
  from T s obtain r where r: "compare_reports ?lib two_files ''baseline.json'' ''current.json'' = Inr r"
    by blast
  from T r have
    "py_getitem ?R ''total_time'' = Inr (baseline_time r)"
    "py_getitem ?R ''total_calls'' = Inr (baseline_calls r)"
    "time_change_percent r = (if baseline_time r = JInf then PFloat NaN else PFloat (Fin 0))"
    "calls_change_percent r = (if baseline_calls r = JInf then PFloat NaN else PFloat (Fin 0))"
    "new_bottlenecks r = {}" "fixed_bottlenecks r = {}" "\<not> regression_detected r"
    by blast+
  then show ?thesis using r by (auto simp: report_with_items)
qed

text \<open>
  C8 as stated fails: a report of the schema whose \<open>total_time\<close> was written as \<open>1e999\<close>
  loads with the float infinity, and compared with itself it gives NaN, not 0.
\<close>

theorem compare_same_report_counterexample:
  "spec_report_schema (report_with JInf (JInt 4))
   \<and> compare_reports
        (load_table [(''B'', report_with JInf (JInt 4)), (''C'', report_with JInf (JInt 4))])
        two_files ''baseline.json'' ''current.json'' =
      Inr \<lparr>baseline_time = JInf, current_time = JInf, time_change_percent = PFloat NaN,
           baseline_calls = JInt 4, current_calls = JInt 4, calls_change_percent = PFloat (Fin 0),
           new_bottlenecks = {}, fixed_bottlenecks = {}, regression_detected = False\<rparr>
   \<and> PFloat NaN \<noteq> PFloat (Fin 0)"
proof -
  have s: "spec_report_schema (report_with JInf (JInt 4))"
    by (simp add: report_with_schema is_number_def is_integer_def)
  have t: "change_percent JInf JInf = Inr (PFloat NaN)"
    using float_limit_100 by (simp add: change_percent_def num_val_def try_then_def)
  have k: "change_percent (JInt 4) (JInt 4) = Inr (PFloat (Fin 0))"
    using float_limit_pos float_limit_100
    by (simp add: change_percent_def num_val_def try_then_def round_float_def)
  have b: "py_get (report_with JInf (JInt 4)) ''bottlenecks'' (JArr []) =
        Inr (JArr [JStr ''fib (25.0% of total time)''])"
    by (simp add: report_with_def py_get_def)
  have ps: "py_set (JArr [JStr ''fib (25.0% of total time)'']) = Inr {JStr ''fib (25.0% of total time)''}"
    by (simp add: py_set_def hashable_def set_key_def)
  have "compare_loaded (report_with JInf (JInt 4)) (report_with JInf (JInt 4)) =
      Inr \<lparr>baseline_time = JInf, current_time = JInf, time_change_percent = PFloat NaN,
           baseline_calls = JInt 4, current_calls = JInt 4, calls_change_percent = PFloat (Fin 0),
           new_bottlenecks = {}, fixed_bottlenecks = {}, regression_detected = False\<rparr>"
    by (simp add: compare_loaded_entries[OF report_with_items(1) report_with_items(1) t
          report_with_items(2) report_with_items(2) k b ps b ps])
  with s show ?thesis
    by (simp add: compare_reports_def two_files_fs load_table_load)
qed

lemma py_getitem_Inl: "py_getitem b k = Inl e \<Longrightarrow> e = KeyError k \<or> e = TypeError"
  by (cases b) (auto simp: py_getitem_def split: option.splits)

lemma py_getitem_obj: "py_getitem b k = Inr v \<Longrightarrow> \<exists>kvs. b = JObj kvs"
  by (cases b) (auto simp: py_getitem_def)

lemma py_get_obj: "py_get (JObj kvs) k d \<noteq> Inl e"
  by (auto simp: py_get_def split: option.splits)

lemma py_set_Inl: "py_set v = Inl e \<Longrightarrow> e = TypeError"
  by (cases v) (auto simp: py_set_def split: if_splits)

lemma as_float_Inl: "as_float a = Inl e \<Longrightarrow> e = OverflowError"
  by (cases a) (auto split: if_splits)

lemma py_sub_Inl: "py_sub a b = Inl e \<Longrightarrow> e = OverflowError"
  by (cases a; cases b) (auto simp: try_then_Inl split: if_splits)

lemma py_mul_Inl: "py_mul a b = Inl e \<Longrightarrow> e = OverflowError"
  by (cases a; cases b) (auto simp: try_then_Inl split: if_splits)

lemma as_float_positive:
  assumes "py_gt b (PInt 0)" and "as_float b = Inr y"
  shows "y \<noteq> Fin 0"
proof (cases b)
  case (PInt i)
  with assms show ?thesis by (auto split: if_splits)
next
  case (PFloat f)
  with assms show ?thesis by (cases f) auto
qed

lemma py_truediv_Inl:
  assumes "py_gt b (PInt 0)" and "py_truediv a b = Inl e"
  shows "e = OverflowError"
proof (cases a)
  case (PInt i)
  show ?thesis
  proof (cases b)
    case (PInt j)
    with assms \<open>a = PInt i\<close> show ?thesis by (auto split: if_splits)
  next
    case (PFloat g)
    with assms \<open>a = PInt i\<close> show ?thesis
      using as_float_positive[OF assms(1)]
      by (auto simp: try_then_Inl dest: as_float_Inl split: if_splits)
  qed
next
  case (PFloat f)
  with assms show ?thesis
    using as_float_positive[OF assms(1)]
    by (auto simp: try_then_Inl dest: as_float_Inl split: if_splits)
qed

lemma change_percent_Inl:
  assumes "change_percent bv cv = Inl e"
  shows "e = TypeError \<or> e = OverflowError"
  using assms
  by (auto simp: change_percent_def try_then_Inl split: option.splits if_splits
      dest: py_sub_Inl py_mul_Inl py_truediv_Inl)

lemma change_percent_numbers:
  assumes "num_val bv = Some b" and "num_val cv = Some c"
  shows "(\<exists>x. change_percent bv cv = Inr x) \<or> change_percent bv cv = Inl OverflowError"
proof (cases "change_percent bv cv")
  case (Inl e)
  with assms have "e = OverflowError"
    by (auto simp: change_percent_def try_then_Inl split: if_splits
        dest: py_sub_Inl py_mul_Inl py_truediv_Inl)
  with Inl show ?thesis by simp
next
  case (Inr x)
  then show ?thesis by blast
qed

lemma compare_loaded_Inl:
  assumes "compare_loaded b c = Inl e"
  shows "(\<exists>k. e = KeyError k) \<or> e = TypeError \<or> e = OverflowError"
  using assms
  unfolding compare_loaded_def try_then_Inl
  by (auto dest: py_getitem_Inl change_percent_Inl py_set_Inl py_getitem_obj simp: py_get_obj)

lemma schema_compare_loaded:
  assumes "spec_report_schema b" and "spec_report_schema c"
  shows "(\<exists>r. compare_loaded b c = Inr r) \<or> compare_loaded b c = Inl OverflowError"
proof -
  from schema_entries[OF assms(1)] obtain bt bk where
    eb: "py_getitem b ''total_time'' = Inr bt" "is_number bt"
        "py_getitem b ''total_calls'' = Inr bk" "is_integer bk" by blast
  from schema_entries[OF assms(2)] obtain ct ck where
    ec: "py_getitem c ''total_time'' = Inr ct" "is_number ct"
        "py_getitem c ''total_calls'' = Inr ck" "is_integer ck" by blast
  from schema_bottlenecks[OF assms(1)] obtain bl bs where
    bb: "py_get b ''bottlenecks'' (JArr []) = Inr bl" "py_set bl = Inr bs" by blast
  from schema_bottlenecks[OF assms(2)] obtain cl cs where
    cb: "py_get c ''bottlenecks'' (JArr []) = Inr cl" "py_set cl = Inr cs" by blast
  from eb ec have t: "(\<exists>x. change_percent bt ct = Inr x) \<or> change_percent bt ct = Inl OverflowError"
    using is_number_num change_percent_numbers by metis
  from eb ec have k: "(\<exists>x. change_percent bk ck = Inr x) \<or> change_percent bk ck = Inl OverflowError"
    using is_integer_num change_percent_numbers by metis
  show ?thesis
  proof (cases "change_percent bt ct")
    case (Inl e)
    with t have "change_percent bt ct = Inl OverflowError" by auto
    then have "compare_loaded b c = Inl OverflowError"
      by (simp add: compare_loaded_def try_then_def eb ec)
    then show ?thesis by simp
  next
    case (Inr x)
    show ?thesis
    proof (cases "change_percent bk ck")
      case (Inl e)
      with k have "change_percent bk ck = Inl OverflowError" by auto
      then have "compare_loaded b c = Inl OverflowError"
        by (simp add: compare_loaded_def try_then_def eb ec Inr)
      then show ?thesis by simp
    next
      case (Inr y)
      from compare_loaded_entries[OF eb(1) ec(1) \<open>change_percent bt ct = Inr x\<close> eb(3) ec(3) Inr bb cb]
      show ?thesis by blast
    qed
  qed
qed

lemma compare_loaded_three_entries:
  assumes "map_of kb ''total_time'' = map_of kb' ''total_time''"
    and "map_of kb ''total_calls'' = map_of kb' ''total_calls''"
    and "map_of kb ''bottlenecks'' = map_of kb' ''bottlenecks''"
    and "map_of kc ''total_time'' = map_of kc' ''total_time''"
    and "map_of kc ''total_calls'' = map_of kc' ''total_calls''"
    and "map_of kc ''bottlenecks'' = map_of kc' ''bottlenecks''"
  shows "compare_loaded (JObj kb) (JObj kc) = compare_loaded (JObj kb') (JObj kc')"
  using assms by (simp add: compare_loaded_def py_getitem_def py_get_def)

text \<open>
  C9, as the code has it. \<open>compare_reports\<close> raises \<open>FileNotFoundError\<close> exactly when one
  of the two files is absent. When both exist it raises an exception of \<open>json.load\<close>
  exactly when one of them does not load, that of the baseline first. When both load, it
  returns a result or raises \<open>KeyError\<close>, \<open>TypeError\<close> or \<open>OverflowError\<close>; two values that
  conform to the report schema give a result or \<open>OverflowError\<close>; and the outcome for two
  dictionaries depends only on their entries \<open>total_time\<close>, \<open>total_calls\<close> and
  \<open>bottlenecks\<close>. The schema itself is never checked.
\<close>

theorem compare_reports_errors:
  "((\<exists>m. compare_reports lib w bp cp = Inl (FileNotFoundError m)) \<longleftrightarrow>
       (fs w bp = None \<or> fs w cp = None))
   \<and> (fs w bp = Some tb \<and> fs w cp = Some tc \<longrightarrow>
        ((\<exists>e. compare_reports lib w bp cp = Inl (LoadError e)) \<longleftrightarrow>
           (json_load lib tb = None \<or> json_load lib tc = None))
        \<and> (json_load lib tb = None \<longrightarrow>
             compare_reports lib w bp cp = Inl (LoadError (load_failure lib tb)))
        \<and> (json_load lib tb \<noteq> None \<and> json_load lib tc = None \<longrightarrow>
             compare_reports lib w bp cp = Inl (LoadError (load_failure lib tc))))
   \<and> (fs w bp = Some tb \<and> fs w cp = Some tc \<and> json_load lib tb = Some b \<and> json_load lib tc = Some c \<longrightarrow>
        compare_reports lib w bp cp = compare_loaded b c
        \<and> ((\<exists>r. compare_loaded b c = Inr r) \<or> (\<exists>k. compare_loaded b c = Inl (KeyError k))
             \<or> compare_loaded b c = Inl TypeError \<or> compare_loaded b c = Inl OverflowError)
        \<and> (spec_report_schema b \<and> spec_report_schema c \<longrightarrow>
             (\<exists>r. compare_loaded b c = Inr r) \<or> compare_loaded b c = Inl OverflowError))
   \<and> (map_of kb ''total_time'' = map_of kb' ''total_time''
        \<and> map_of kb ''total_calls'' = map_of kb' ''total_calls''
        \<and> map_of kb ''bottlenecks'' = map_of kb' ''bottlenecks''
        \<and> map_of kc ''total_time'' = map_of kc' ''total_time''
        \<and> map_of kc ''total_calls'' = map_of kc' ''total_calls''
        \<and> map_of kc ''bottlenecks'' = map_of kc' ''bottlenecks'' \<longrightarrow>
        compare_loaded (JObj kb) (JObj kc) = compare_loaded (JObj kb') (JObj kc'))"
proof -
  have ne: "\<And>x y m. compare_loaded x y \<noteq> Inl (FileNotFoundError m)"
    "\<And>x y e. compare_loaded x y \<noteq> Inl (LoadError e)"
    using compare_loaded_Inl by fastforce+
  have 1: "(\<exists>m. compare_reports lib w bp cp = Inl (FileNotFoundError m)) \<longleftrightarrow>
       (fs w bp = None \<or> fs w cp = None)"
    using ne by (auto simp: compare_reports_def split: option.splits)
  have 2: "fs w bp = Some tb \<and> fs w cp = Some tc \<longrightarrow>
        ((\<exists>e. compare_reports lib w bp cp = Inl (LoadError e)) \<longleftrightarrow>
           (json_load lib tb = None \<or> json_load lib tc = None))
        \<and> (json_load lib tb = None \<longrightarrow>
             compare_reports lib w bp cp = Inl (LoadError (load_failure lib tb)))
        \<and> (json_load lib tb \<noteq> None \<and> json_load lib tc = None \<longrightarrow>
             compare_reports lib w bp cp = Inl (LoadError (load_failure lib tc)))"
    using ne by (auto simp: compare_reports_def split: option.splits)
  have 3: "fs w bp = Some tb \<and> fs w cp = Some tc \<and> json_load lib tb = Some b \<and> json_load lib tc = Some c \<longrightarrow>
        compare_reports lib w bp cp = compare_loaded b c
        \<and> ((\<exists>r. compare_loaded b c = Inr r) \<or> (\<exists>k. compare_loaded b c = Inl (KeyError k))
             \<or> compare_loaded b c = Inl TypeError \<or> compare_loaded b c = Inl OverflowError)
        \<and> (spec_report_schema b \<and> spec_report_schema c \<longrightarrow>
             (\<exists>r. compare_loaded b c = Inr r) \<or> compare_loaded b c = Inl OverflowError)"
  proof (intro impI conjI)
    assume "fs w bp = Some tb \<and> fs w cp = Some tc \<and> json_load lib tb = Some b \<and> json_load lib tc = Some c"
    then show "compare_reports lib w bp cp = compare_loaded b c"
      by (simp add: compare_reports_def)
    show "(\<exists>r. compare_loaded b c = Inr r) \<or> (\<exists>k. compare_loaded b c = Inl (KeyError k))
             \<or> compare_loaded b c = Inl TypeError \<or> compare_loaded b c = Inl OverflowError"
    proof (cases "compare_loaded b c")
      case (Inl e)
      with compare_loaded_Inl[of b c e] show ?thesis by auto
    next
      case (Inr r)
      then show ?thesis by blast
    qed
  next
    assume "spec_report_schema b \<and> spec_report_schema c"
    then show "(\<exists>r. compare_loaded b c = Inr r) \<or> compare_loaded b c = Inl OverflowError"
      using schema_compare_loaded by blast
  qed
  have 4: "map_of kb ''total_time'' = map_of kb' ''total_time''
        \<and> map_of kb ''total_calls'' = map_of kb' ''total_calls''
        \<and> map_of kb ''bottlenecks'' = map_of kb' ''bottlenecks''
        \<and> map_of kc ''total_time'' = map_of kc' ''total_time''
        \<and> map_of kc ''total_calls'' = map_of kc' ''total_calls''
        \<and> map_of kc ''bottlenecks'' = map_of kc' ''bottlenecks'' \<longrightarrow>
        compare_loaded (JObj kb) (JObj kc) = compare_loaded (JObj kb') (JObj kc')"
    using compare_loaded_three_entries by blast
  from 1 2 3 4 show ?thesis by blast
qed

text \<open>
  No files; two files that are not JSON; a second file that is not text; two files holding
  a report of the schema; two pairs of dictionaries that agree on the three entries.
\<close>

theorem compare_reports_errors_witness:
  "(\<exists>m. compare_reports (load_table []) (two_files\<lparr>fs := Map.empty\<rparr>) ''baseline.json'' ''current.json''
          = Inl (FileNotFoundError m))
   \<and> compare_reports (load_table []) two_files ''baseline.json'' ''current.json''
        = Inl (LoadError JSONDecodeError)
   \<and> compare_reports
        (load_table [(''B'', report_with (JFloat 1) (JInt 4))]\<lparr>load_failure := (\<lambda>s. UnicodeDecodeError)\<rparr>)
        two_files ''baseline.json'' ''current.json'' = Inl (LoadError UnicodeDecodeError)
   \<and> compare_reports
        (load_table [(''B'', report_with (JFloat 1) (JInt 4)), (''C'', report_with (JFloat 1) (JInt 4))])
        two_files ''baseline.json'' ''current.json''
        = compare_loaded (report_with (JFloat 1) (JInt 4)) (report_with (JFloat 1) (JInt 4))
   \<and> compare_loaded (JObj [(''total_time'', JInt 1), (''total_calls'', JInt 1)])
         (JObj [(''total_time'', JInt 2), (''total_calls'', JInt 1)])
       = compare_loaded (JObj [(''timestamp'', JNull), (''total_time'', JInt 1), (''total_calls'', JInt 1)])
           (JObj [(''total_calls'', JInt 1), (''total_time'', JInt 2)])"
proof -
  have a: "\<exists>m. compare_reports (load_table []) (two_files\<lparr>fs := Map.empty\<rparr>) ''baseline.json'' ''current.json''
          = Inl (FileNotFoundError m)"
    using compare_reports_errors[of "load_table []" "two_files\<lparr>fs := Map.empty\<rparr>" "''baseline.json''"
        "''current.json''"]
    by simp
  have b: "compare_reports (load_table []) two_files ''baseline.json'' ''current.json''
        = Inl (LoadError JSONDecodeError)"
    using compare_reports_errors[of "load_table []" two_files "''baseline.json''" "''current.json''"
        "''B''" "''C''"]
    by (simp add: two_files_fs load_table_load) (simp add: load_table_def example_lib_def)
  have c: "compare_reports
        (load_table [(''B'', report_with (JFloat 1) (JInt 4))]\<lparr>load_failure := (\<lambda>s. UnicodeDecodeError)\<rparr>)
        two_files ''baseline.json'' ''current.json'' = Inl (LoadError UnicodeDecodeError)"
    using compare_reports_errors[of
        "load_table [(''B'', report_with (JFloat 1) (JInt 4))]\<lparr>load_failure := (\<lambda>s. UnicodeDecodeError)\<rparr>"
        two_files "''baseline.json''" "''current.json''" "''B''" "''C''"]
    by (simp add: two_files_fs load_table_load)
  have d: "compare_reports
        (load_table [(''B'', report_with (JFloat 1) (JInt 4)), (''C'', report_with (JFloat 1) (JInt 4))])
        two_files ''baseline.json'' ''current.json''
        = compare_loaded (report_with (JFloat 1) (JInt 4)) (report_with (JFloat 1) (JInt 4))"
    using compare_reports_errors[of
        "load_table [(''B'', report_with (JFloat 1) (JInt 4)), (''C'', report_with (JFloat 1) (JInt 4))]"
        two_files "''baseline.json''" "''current.json''" "''B''" "''C''"
        "report_with (JFloat 1) (JInt 4)" "report_with (JFloat 1) (JInt 4)"]
    by (simp add: two_files_fs load_table_load)
  have e: "compare_loaded (JObj [(''total_time'', JInt 1), (''total_calls'', JInt 1)])
         (JObj [(''total_time'', JInt 2), (''total_calls'', JInt 1)])
       = compare_loaded (JObj [(''timestamp'', JNull), (''total_time'', JInt 1), (''total_calls'', JInt 1)])
           (JObj [(''total_calls'', JInt 1), (''total_time'', JInt 2)])"
    using compare_reports_errors[where
        kb = "[(''total_time'', JInt 1), (''total_calls'', JInt 1)]" and
        kc = "[(''total_time'', JInt 2), (''total_calls'', JInt 1)]" and
        kb' = "[(''timestamp'', JNull), (''total_time'', JInt 1), (''total_calls'', JInt 1)]" and
        kc' = "[(''total_calls'', JInt 1), (''total_time'', JInt 2)]"]
    by simp
  from a b c d e show ?thesis by blast
qed

text \<open>
  C9 as stated fails: two existing files that hold only \<open>total_time\<close> and \<open>total_calls\<close>
  do not conform to the report schema, and \<open>compare_reports\<close> returns a result.
\<close>

theorem compare_reports_errors_counterexample:
  "fs two_files ''baseline.json'' = Some ''B'' \<and> fs two_files ''current.json'' = Some ''C''
   \<and> \<not> spec_report_schema (totals_only (JInt 1) (JInt 1))
   \<and> compare_reports
        (load_table [(''B'', totals_only (JInt 1) (JInt 1)), (''C'', totals_only (JInt 1) (JInt 1))])
        two_files ''baseline.json'' ''current.json'' =
      Inr \<lparr>baseline_time = JInt 1, current_time = JInt 1, time_change_percent = PFloat (Fin 0),
           baseline_calls = JInt 1, current_calls = JInt 1, calls_change_percent = PFloat (Fin 0),
           new_bottlenecks = {}, fixed_bottlenecks = {}, regression_detected = False\<rparr>"
proof -
  have k: "change_percent (JInt 1) (JInt 1) = Inr (PFloat (Fin 0))"
    using float_limit_pos float_limit_100
    by (simp add: change_percent_def num_val_def try_then_def round_float_def)
  show ?thesis
    by (simp add: compare_reports_def two_files_fs load_table_load totals_only_def compare_loaded_def
      try_then_def py_getitem_def py_get_def py_set_def k spec_report_schema_def has_key_def)
qed

section \<open>Properties of saving\<close>

lemma asdict_inj: "asdict f = asdict g \<Longrightarrow> f = g"
  by (cases f, cases g) (simp add: asdict_def)

lemma map_asdict_inj: "map asdict xs = map asdict ys \<Longrightarrow> xs = ys"
  using asdict_inj by (metis injI inj_map_eq_map)

lemma map_JStr_inj: "map JStr xs = map JStr ys \<Longrightarrow> xs = ys"
  by (metis injI inj_map_eq_map json.inject(4))

lemma report_dict_inj: "report_dict r = report_dict r' \<Longrightarrow> r = r'"
  by (cases r, cases r') (auto simp: report_dict_def dest: map_asdict_inj map_JStr_inj)

text \<open>
  C7. \<open>json.dump\<close> and \<open>json.load\<close> belong to the library; the hypothesis is that loading
  what was dumped gives the dumped value back, for the dictionary of this report. Then
  \<open>save_report\<close> in the \<open>json\<close> format returns a path, the file at that path loads to a
  dictionary whose eight entries are the eight fields of the report, \<open>hot_functions\<close> with
  one entry for every record of the report, and no other report has this dictionary.
\<close>

theorem save_report_json_roundtrip:
  assumes "json_load lib (json_dump lib (report_dict report)) = Some (report_dict report)"
  shows "\<exists>path text d.
        fst (save_report lib output_dir w report ''json'') = Inr path
      \<and> fs (snd (save_report lib output_dir w report ''json'')) path = Some text
      \<and> json_load lib text = Some d
      \<and> py_getitem d ''script_path'' = Inr (JStr (script_path report))
      \<and> py_getitem d ''total_time'' = Inr (JFloat (report_total_time report))
      \<and> py_getitem d ''total_calls'' = Inr (JInt (report_total_calls report))
      \<and> py_getitem d ''hot_functions'' = Inr (JArr (map asdict (hot_functions report)))
      \<and> py_getitem d ''bottlenecks'' = Inr (JArr (map JStr (bottlenecks report)))
      \<and> py_getitem d ''call_tree'' = Inr (JObj (call_tree report))
      \<and> py_getitem d ''recommendations'' = Inr (JArr (map JStr (recommendations report)))
      \<and> py_getitem d ''timestamp'' = Inr (JStr (timestamp report))
      \<and> (\<forall>report'. report_dict report' = d \<longrightarrow> report' = report)"
proof -
  define path where "path = path_join lib output_dir
     (path_stem lib (script_path report) @ ''_'' @ strftime lib ''%Y%m%d_%H%M%S'' (clock w) @ ''.json'')"
  have s: "save_report lib output_dir w report ''json'' =
      (Inr path, w\<lparr>fs := (fs w)(path \<mapsto> json_dump lib (report_dict report))\<rparr>)"
    by (simp add: save_report_def Let_def path_def)
  have fields: "py_getitem (report_dict report) ''script_path'' = Inr (JStr (script_path report))
      \<and> py_getitem (report_dict report) ''total_time'' = Inr (JFloat (report_total_time report))
      \<and> py_getitem (report_dict report) ''total_calls'' = Inr (JInt (report_total_calls report))
      \<and> py_getitem (report_dict report) ''hot_functions'' = Inr (JArr (map asdict (hot_functions report)))
      \<and> py_getitem (report_dict report) ''bottlenecks'' = Inr (JArr (map JStr (bottlenecks report)))
      \<and> py_getitem (report_dict report) ''call_tree'' = Inr (JObj (call_tree report))
      \<and> py_getitem (report_dict report) ''recommendations'' = Inr (JArr (map JStr (recommendations report)))
      \<and> py_getitem (report_dict report) ''timestamp'' = Inr (JStr (timestamp report))"
    by (simp add: report_dict_def py_getitem_def)
  have inj: "\<forall>report'. report_dict report' = report_dict report \<longrightarrow> report' = report"
    using report_dict_inj by blast
  have "fst (save_report lib output_dir w report ''json'') = Inr path
      \<and> fs (snd (save_report lib output_dir w report ''json'')) path = Some (json_dump lib (report_dict report))
      \<and> json_load lib (json_dump lib (report_dict report)) = Some (report_dict report)"
    using assms by (simp add: s)
  with fields inj show ?thesis by blast
qed

lemma example_hot_functions: "map asdict (hot_functions example_report) = replicate 11 (asdict example_function)"
  by (simp add: example_report_def)

text \<open>The example report, with its eleven function records.\<close>

theorem save_report_json_roundtrip_witness:
  "\<exists>path text d.
        fst (save_report (example_lib\<lparr>json_dump := (\<lambda>j. ''R''),
               json_load := map_of [(''R'', report_dict example_report)]\<rparr>)
             ''reports'' example_world example_report ''json'') = Inr path
      \<and> fs (snd (save_report (example_lib\<lparr>json_dump := (\<lambda>j. ''R''),
               json_load := map_of [(''R'', report_dict example_report)]\<rparr>)
             ''reports'' example_world example_report ''json'')) path = Some text
      \<and> map_of [(''R'', report_dict example_report)] text = Some d
      \<and> py_getitem d ''hot_functions'' = Inr (JArr (replicate 11 (asdict example_function)))
      \<and> py_getitem d ''total_calls'' = Inr (JInt 4)"
proof -
  let ?lib = "example_lib\<lparr>json_dump := (\<lambda>j. ''R''),
               json_load := map_of [(''R'', report_dict example_report)]\<rparr>"
  have h: "json_load ?lib (json_dump ?lib (report_dict example_report)) = Some (report_dict example_report)"
    by simp
  have l: "json_load ?lib = map_of [(''R'', report_dict example_report)]" by simp
  have c: "report_total_calls example_report = 4" by (simp add: example_report_def)
  from save_report_json_roundtrip[OF h, of "''reports''" example_world]
  show ?thesis
    unfolding l example_hot_functions c by blast
qed

end
